theory Spec2Isabelle
  imports Complex_Main "HOL-Library.Word" "HOL-Library.AList"
begin

unbundle bit_operations_syntax

section \<open>Python values and errors\<close>

text \<open>
  A Python \<open>bytes\<close> object is a list of bytes; indexing one yields the unsigned value of
  the byte (\<open>uint\<close>), the struct code \<open>b\<close> its two's-complement reading (\<open>sint\<close>).
\<close>

type_synonym byte = "8 word"

text \<open>The exceptions the modelled functions can raise.\<close>

datatype pyerror =
    TypeError | AttributeError | KeyError | IndexError | ValueError
  | SyntaxError | StructError | AssertionError | OverflowError
  | UnicodeDecodeError | XmlLoadError

text \<open>
  Python floats are kept symbolic: a value of \<open>pyfloat\<close> records which float operation
  produced the number, not its rounded binary64 result.
  \<^item> \<open>FBits c bs\<close>: the float that \<open>struct.unpack\<close> reads from the bytes \<open>bs\<close> under the
    code \<open>c\<close> (\<open>f\<close> or \<open>d\<close>);
  \<^item> \<open>FOfInt i\<close>: the conversion \<open>float(i)\<close>;
  \<^item> \<open>FPow b e\<close>: the float \<open>b ** e\<close> of two ints with \<open>e < 0\<close>;
  \<^item> \<open>FTrueDiv a b\<close>: the true division \<open>a / b\<close> of two ints;
  \<^item> \<open>FMul x y\<close>, \<open>FDiv x y\<close>: float product and quotient.
\<close>

datatype pyfloat =
    FBits char "byte list"
  | FOfInt int
  | FPow int int
  | FTrueDiv int int
  | FMul pyfloat pyfloat
  | FDiv pyfloat pyfloat

section \<open>formatter.py: the IEEE-11073 codecs\<close>

text \<open>Little-endian reading of a byte string as an unsigned integer.\<close>

fun le_uint :: "byte list \<Rightarrow> int" where
  "le_uint [] = 0"
| "le_uint (b # bs) = uint b + 256 * le_uint bs"

text \<open>The two's-complement reading of an unsigned \<open>bits\<close>-bit quantity.\<close>

definition to_signed :: "nat \<Rightarrow> int \<Rightarrow> int" where
  "to_signed bits n = (if n \<ge> 2 ^ (bits - 1) then n - 2 ^ bits else n)"

text \<open>
  \<open>struct.unpack('i', bs)\<close> on four bytes: a 32-bit two's-complement integer, read in the
  byte order of the host, which the model takes to be little-endian.
\<close>

definition unpack_i :: "byte list \<Rightarrow> int" where
  "unpack_i bs = to_signed 32 (le_uint bs)"

text \<open>
  A Python string is the list of the bytes of its UTF-8 encoding. The last label of the
  \<open>special_values\<close> dictionaries is \<open>INFINITY\<close> preceded by an en dash (U+2013, the bytes
  \<open>E2 80 93\<close>); it is not the text with the minus sign (U+2212, the bytes \<open>E2 88 92\<close>).
\<close>

definition en_dash_INFINITY :: string where
  "en_dash_INFINITY = [CHR 0xE2, CHR 0x80, CHR 0x93] @ ''INFINITY''"

text \<open>What a decode function returns: the label of a special value, or a float.\<close>

datatype decoded = Special string | Number pyfloat

definition special_values_FLOAT :: "(int \<times> string) list" where
  "special_values_FLOAT =
     [(2 ^ 23 - 2, ''+INFINITY''), (2 ^ 23 - 1, ''NaN''), (- (2 ^ 23), ''NRes''),
      (- (2 ^ 23 - 1), ''Reserved for future use''), (- (2 ^ 23 - 2), en_dash_INFINITY)]"

text \<open>
  \<open>1 / (10 ** e)\<close> for an int \<open>e\<close>: \<open>10 ** e\<close> is an int when \<open>e\<close> is not negative, so
  that the quotient is a true division of ints, and a float otherwise.
\<close>

definition reciprocal_pow10 :: "int \<Rightarrow> pyfloat" where
  "reciprocal_pow10 e =
     (if 0 \<le> e then FTrueDiv 1 (10 ^ nat e) else FDiv (FOfInt 1) (FPow 10 e))"

text \<open>
  \<open>decode_FLOAT_ieee11073\<close>. \<open>struct.unpack('4b', value)\<close> raises \<open>struct.error\<close> unless the
  buffer has exactly four bytes. The quotient \<open>mantissa / (1 / (10**exponent))\<close> cannot
  divide by zero for an exponent of one signed byte.
\<close>

definition decode_FLOAT_ieee11073 :: "byte list \<Rightarrow> pyerror + decoded" where
  "decode_FLOAT_ieee11073 v =
     (case v of
        [b0, b1, b2, b3] \<Rightarrow>
          (let sign = sint b2;
               exponent = sint b3;
               mantissa_bytes = (if sign \<ge> 0 then [b0, b1, b2] @ [0x00] else [b0, b1, b2] @ [0xff]);
               mantissa = unpack_i mantissa_bytes
           in case (if exponent = 0 then map_of special_values_FLOAT mantissa else None) of
                Some l \<Rightarrow> Inr (Special l)
              | None \<Rightarrow>
                  Inr (Number (FDiv (FOfInt mantissa) (reciprocal_pow10 exponent))))
      | _ \<Rightarrow> Inl StructError)"

text \<open>\<open>twos_comp\<close>: the sign bit is tested, then the value is masked to \<open>bits\<close> bits.\<close>

definition twos_comp :: "int \<Rightarrow> nat \<Rightarrow> int" where
  "twos_comp val bits =
     (let val' = (if val AND push_bit (bits - 1) 1 \<noteq> 0 then val - push_bit bits 1 else val)
      in val' AND (2 ^ bits - 1))"

text \<open>\<open>int.to_bytes(2, 'little', signed=True)\<close>.\<close>

definition to_bytes_2_little_signed :: "int \<Rightarrow> pyerror + byte list" where
  "to_bytes_2_little_signed x =
     (if - (2 ^ 15) \<le> x \<and> x < 2 ^ 15
      then Inr [word_of_int x, word_of_int (drop_bit 8 x)]
      else Inl OverflowError)"

text \<open>
  \<open>encode_SFLOAT_ieee11073\<close> on an int \<open>value\<close> and a precision that is not negative, where
  \<open>int(value * 10 ** precision)\<close> is exact. The \<open>assert\<close> raises \<open>AssertionError\<close> with the
  message \<open>Mantissa too big\<close>. The \<open>debug\<close> printing is left out.
\<close>

definition encode_SFLOAT_ieee11073 :: "int \<Rightarrow> nat \<Rightarrow> pyerror + byte list" where
  "encode_SFLOAT_ieee11073 v precision =
     (let val = v * 10 ^ precision
      in if \<not> val < 2 ^ 11 then Inl AssertionError
         else to_bytes_2_little_signed (push_bit 12 (int precision) + twos_comp val 12))"

text \<open>\<open>twos_comp_dec\<close>: the sign bit is tested, the value is not masked.\<close>

definition twos_comp_dec :: "int \<Rightarrow> nat \<Rightarrow> int" where
  "twos_comp_dec val bits =
     (if val AND push_bit (bits - 1) 1 \<noteq> 0 then val - push_bit bits 1 else val)"

definition special_values_SFLOAT :: "(int \<times> string) list" where
  "special_values_SFLOAT =
     [(2 ^ 11 - 2, ''+INFINITY''), (2 ^ 11 - 1, ''NaN''), (- (2 ^ 11), ''NRes''),
      (- (2 ^ 11 - 1), ''Reserved for future use''), (- (2 ^ 11 - 2), en_dash_INFINITY)]"

text \<open>
  \<open>decode_SFLOAT_ieee11073\<close>. The value is indexed at 1 and 0, so a buffer shorter than two
  bytes raises \<open>IndexError\<close> and further bytes are ignored. The mask evaluated from the
  binary literal of four zeros and twelve ones is \<open>0x0FFF\<close>. The result is the true
  division of the mantissa by \<open>10 ** exponent\<close>, the exponent being \<open>dec >> 12\<close>.
\<close>

definition decode_SFLOAT_ieee11073 :: "byte list \<Rightarrow> pyerror + decoded" where
  "decode_SFLOAT_ieee11073 v =
     (case v of
        b0 # b1 # _ \<Rightarrow>
          (let bitmask_mant = 0x0FFF;
               dec = push_bit 8 (uint b1) + uint b0;
               exponent = drop_bit 12 dec;
               mantissa_uint = drop_bit 0 (dec AND bitmask_mant);
               mantissa = twos_comp_dec mantissa_uint 12
           in case (if exponent = 0 then map_of special_values_SFLOAT mantissa else None) of
                Some l \<Rightarrow> Inr (Special l)
              | None \<Rightarrow> Inr (Number (FTrueDiv mantissa (10 ^ nat exponent))))
      | _ \<Rightarrow> Inl IndexError)"

section \<open>Results that may raise\<close>

text \<open>
  A computation either raises (\<open>Inl\<close>) or returns (\<open>Inr\<close>); \<open>on_success m f\<close> runs \<open>f\<close> on the
  value of \<open>m\<close> and passes an exception of \<open>m\<close> on.
\<close>

definition on_success :: "pyerror + 'a \<Rightarrow> ('a \<Rightarrow> pyerror + 'b) \<Rightarrow> pyerror + 'b" where
  "on_success m f = (case m of Inl e \<Rightarrow> Inl e | Inr x \<Rightarrow> f x)"

section \<open>The struct module, as utils.py uses it\<close>

text \<open>
  Python values that the decode functions handle: ints, bools, floats, strings (as the
  bytes of their UTF-8 encoding) and the label dictionary of a decoded bit field.
\<close>

datatype pyval =
    VInt int
  | VBool bool
  | VFloat pyfloat
  | VStr string
  | VLabels "(string \<times> string) list"

text \<open>
  utils.py passes format strings without a byte-order prefix, so \<open>struct\<close> works in native
  mode: native sizes, native alignment, native byte order. The model fixes the usual
  little-endian platform on which a short has 2 bytes, an int 4 and a long long 8, and
  every item is aligned to its size. Every format that utils.py passes is a
  concatenation of entries of \<open>DATA_FMT\<close>, so only the characters of these entries
  occur: the codes among them are given a size, and the others (the letters of \<open>utf8\<close>
  and \<open>X\<close>) make \<open>struct\<close> raise \<open>struct.error\<close>.
\<close>

definition code_size :: "char \<Rightarrow> nat option" where
  "code_size c =
     (if c \<in> set ''bB?'' then Some 1
      else if c \<in> set ''hH'' then Some 2
      else if c \<in> set ''iIf'' then Some 4
      else if c \<in> set ''Qd'' then Some 8
      else None)"

definition digit_value :: "char \<Rightarrow> nat option" where
  "digit_value c =
     (if of_char (CHR ''0'') \<le> (of_char c :: nat) \<and> (of_char c :: nat) \<le> of_char (CHR ''9'')
      then Some (of_char c - of_char (CHR ''0'')) else None)"

text \<open>
  A format is a sequence of codes, each with an optional decimal repeat count. A count
  with no code after it and an unknown code are errors (\<open>None\<close>).
\<close>

fun parse_format :: "nat option \<Rightarrow> string \<Rightarrow> (nat \<times> char) list option" where
  "parse_format cnt [] = (case cnt of None \<Rightarrow> Some [] | Some _ \<Rightarrow> None)"
| "parse_format cnt (c # cs) =
     (case digit_value c of
        Some d \<Rightarrow> parse_format (Some (10 * (case cnt of None \<Rightarrow> 0 | Some n \<Rightarrow> n) + d)) cs
      | None \<Rightarrow>
          (case code_size c of
             None \<Rightarrow> None
           | Some _ \<Rightarrow>
               (case parse_format None cs of
                  None \<Rightarrow> None
                | Some items \<Rightarrow> Some ((case cnt of None \<Rightarrow> 1 | Some n \<Rightarrow> n, c) # items))))"

text \<open>Native alignment: the offset is rounded up to a multiple of the item size.\<close>

definition align :: "nat \<Rightarrow> nat \<Rightarrow> nat" where
  "align off a = ((off + a - 1) div a) * a"

text \<open>
  The offsets of the items of a parsed format, from offset \<open>off\<close>, and the offset after
  the last item. The offset is aligned for every code, also under a count of 0.
\<close>

fun layout :: "nat \<Rightarrow> (nat \<times> char) list \<Rightarrow> (nat \<times> char) list \<times> nat" where
  "layout off [] = ([], off)"
| "layout off ((n, c) # items) =
     (let sz = (case code_size c of Some k \<Rightarrow> k | None \<Rightarrow> 0);
          start = align off sz;
          (slots, end) = layout (start + n * sz) items
      in (map (\<lambda>k. (start + k * sz, c)) [0..<n] @ slots, end))"

definition struct_calcsize :: "string \<Rightarrow> pyerror + nat" where
  "struct_calcsize fmt =
     (case parse_format None fmt of
        None \<Rightarrow> Inl StructError
      | Some items \<Rightarrow> Inr (snd (layout 0 items)))"

text \<open>The value of one item, read from the bytes of its slot.\<close>

definition unpack_item :: "char \<Rightarrow> byte list \<Rightarrow> pyval" where
  "unpack_item c bs =
     (if c = CHR ''B'' \<or> c = CHR ''H'' \<or> c = CHR ''I'' \<or> c = CHR ''Q'' then VInt (le_uint bs)
      else if c = CHR ''b'' \<or> c = CHR ''h'' \<or> c = CHR ''i''
        then VInt (to_signed (8 * length bs) (le_uint bs))
      else if c = CHR ''?'' then VBool (le_uint bs \<noteq> 0)
      else VFloat (FBits c bs))"

text \<open>
  \<open>struct.unpack(fmt, buffer)\<close>: the buffer must have exactly the size of the format.
\<close>

definition struct_unpack :: "string \<Rightarrow> byte list \<Rightarrow> pyerror + pyval list" where
  "struct_unpack fmt buf =
     (case parse_format None fmt of
        None \<Rightarrow> Inl StructError
      | Some items \<Rightarrow>
          (let (slots, total) = layout 0 items
           in if length buf \<noteq> total then Inl StructError
              else Inr (map (\<lambda>(off, c).
                     unpack_item c (take (case code_size c of Some k \<Rightarrow> k | None \<Rightarrow> 0) (drop off buf)))
                   slots)))"

text \<open>
  \<open>struct.pack(fmt, v)\<close> with one argument, as far as it raises: the format must hold
  exactly one item; an integer code takes an int or bool within its range; \<open>?\<close> takes any
  object; a float code takes a number. The packed bytes are not used by the caller.
\<close>

definition struct_pack_raises :: "string \<Rightarrow> pyval \<Rightarrow> pyerror option" where
  "struct_pack_raises fmt v =
     (case parse_format None fmt of
        None \<Rightarrow> Some StructError
      | Some items \<Rightarrow>
          (case fst (layout 0 items) of
             [(off, c)] \<Rightarrow>
               (let bits = 8 * (case code_size c of Some k \<Rightarrow> k | None \<Rightarrow> 0);
                    as_int = (case v of VInt i \<Rightarrow> Some i | VBool b \<Rightarrow> Some (of_bool b) | _ \<Rightarrow> None)
                in if c = CHR ''?'' then None
                   else if c = CHR ''f'' \<or> c = CHR ''d''
                     then (case v of VStr _ \<Rightarrow> Some StructError | VLabels _ \<Rightarrow> Some StructError | _ \<Rightarrow> None)
                   else (case as_int of
                           None \<Rightarrow> Some StructError
                         | Some i \<Rightarrow>
                             if c \<in> set ''BHIQ''
                             then (if 0 \<le> i \<and> i < 2 ^ bits then None else Some StructError)
                             else (if - (2 ^ (bits - 1)) \<le> i \<and> i < 2 ^ (bits - 1) then None
                                   else Some StructError)))
           | _ \<Rightarrow> Some StructError))"

section \<open>utils.py: characteristic metadata\<close>

text \<open>The table of unpack formats, in the order of the source.\<close>

definition DATA_FMT :: "(string \<times> string) list" where
  "DATA_FMT =
     [(''sint8'', ''b''), (''uint8'', ''B''), (''sint16'', ''h''), (''uint16'', ''H''),
      (''uint24'', ''I''), (''sint32'', ''i''), (''uint32'', ''I''), (''uint40'', ''Q''),
      (''uint48'', ''Q''), (''utf8s'', ''utf8''), (''8bit'', ''B''), (''16bit'', ''h''),
      (''float64'', ''d''), (''variable'', ''X''), (''gatt_uuid'', ''X''), (''boolean'', ''?''),
      (''32bit'', ''I''), (''FLOAT'', ''f''), (''24bit'', ''I''), (''SFLOAT'', ''f''),
      (''sint24'', ''I''), (''nibble'', ''B''), (''2bit'', ''B''), (''uint128'', ''2Q''),
      (''uint12'', ''H''), (''4bit'', ''B''), (''characteristic'', ''X'')]"

text \<open>
  The dictionaries that \<open>CHAR_XML\<close> builds are ordered and have distinct keys; they are
  association lists here, in insertion order. An \<open>Enumerations\<close> dictionary maps key
  texts to labels and may hold, under the key \<open>Requires\<close>, a second dictionary from key
  texts to requirement tags.
\<close>

record enumerations =
  entries :: "(string \<times> string) list"
  Requires :: "(string \<times> string) list option"

text \<open>
  One \<open>Bit\<close> of a \<open>BitField\<close>. The source stores the texts of the attributes \<open>index\<close> and
  \<open>size\<close> and converts them with \<open>int\<close> at every use; the model holds the integers.
\<close>

record bit_spec =
  bit_index :: int
  bit_size :: int
  bit_Enumerations :: "enumerations option"

text \<open>
  One entry of \<open>CHAR_XML.fields\<close>. An optional key of the dictionary is an option;
  \<open>Requirement\<close> lists the values under the keys that contain the text \<open>Requirement\<close>
  (\<open>Requirement\<close>, \<open>Requirement-1\<close>, ...), in insertion order. The keys that the decode
  functions never read (\<open>Minimum\<close>, \<open>Maximum\<close>, \<open>Unit_id\<close>, \<open>InformativeText\<close>) are left out.

  The key \<open>Ctype\<close> is written in one place only: \<open>_get_fields\<close> stores \<open>DATA_FMT[val.text]\<close>
  for the text of a \<open>Format\<close> element, and stores nothing when the table has no such
  entry (the \<open>KeyError\<close> is caught). So a Ctype is always an entry of \<open>DATA_FMT\<close>: the
  record holds under \<open>Format\<close> the format name whose entry was stored, and \<open>Ctype\<close> reads
  the table.
\<close>

record field =
  Format :: "string option"
  Requirement :: "string list"
  Enumerations :: "enumerations option"
  BitField :: "(string \<times> bit_spec) list option"
  Reference :: "string option"
  Multiplier :: "int option"
  DecimalExponent :: "int option"
  BinaryExponent :: "int option"
  Quantity :: "string option"
  Unit :: "string option"
  Symbol :: "string option"

definition Ctype :: "field \<Rightarrow> string option" where
  "Ctype f = (case Format f of None \<Rightarrow> None | Some fmt \<Rightarrow> map_of DATA_FMT fmt)"

text \<open>
  A \<open>CHAR_XML\<close> object; the decode functions read only its attribute \<open>fields\<close>, which
  is \<open>xml_fields\<close> here.
\<close>

record CHAR_XML =
  xml_fields :: "(string \<times> field) list"

section \<open>utils.py: bit masks\<close>

text \<open>\<open>str\<close> of an int: its decimal numeral.\<close>

fun str_nat :: "nat \<Rightarrow> string" where
  "str_nat n =
     (if n < 10 then [char_of (48 + n)]
      else str_nat (n div 10) @ [char_of (48 + n mod 10)])"

declare str_nat.simps [simp del]

definition str_int :: "int \<Rightarrow> string" where
  "str_int i = (if i < 0 then CHR ''-'' # str_nat (nat (- i)) else str_nat (nat i))"

text \<open>
  The digits after \<open>0b\<close> in the mask literal. Python repeats a string zero times for a
  count that is not positive, as \<open>replicate\<close> does after \<open>nat\<close>.
\<close>

definition bitmask_digits :: "int \<Rightarrow> int \<Rightarrow> int \<Rightarrow> string" where
  "bitmask_digits total_size index bsize =
     replicate (nat (total_size - (index + bsize))) (CHR ''0'')
     @ replicate (nat bsize) (CHR ''1'')
     @ replicate (nat index) (CHR ''0'')"

text \<open>\<open>eval\<close> of \<open>0b\<close> followed by binary digits; with no digit it raises \<open>SyntaxError\<close>.\<close>

definition eval_0b :: "string \<Rightarrow> pyerror + int" where
  "eval_0b ds =
     (if ds = [] then Inl SyntaxError
      else Inr (foldl (\<lambda>acc c. 2 * acc + (if c = CHR ''1'' then 1 else 0)) 0 ds))"

text \<open>
  \<open>(val & mask) >> index\<close>: \<open>&\<close> is defined on ints and bools and raises \<open>TypeError\<close>
  otherwise; a negative shift count raises \<open>ValueError\<close>.
\<close>

definition and_shift :: "pyval \<Rightarrow> int \<Rightarrow> int \<Rightarrow> pyerror + int" where
  "and_shift val bitmask index =
     (case (case val of VInt i \<Rightarrow> Some i | VBool b \<Rightarrow> Some (of_bool b) | _ \<Rightarrow> None) of
        None \<Rightarrow> Inl TypeError
      | Some i \<Rightarrow> if index < 0 then Inl ValueError else Inr (drop_bit (nat index) (i AND bitmask)))"

text \<open>\<open>_autobitmask\<close>: a key that the map lacks raises \<open>KeyError\<close>.\<close>

definition autobitmask ::
  "pyval \<Rightarrow> int \<Rightarrow> int \<Rightarrow> int \<Rightarrow> (string \<times> string) list \<Rightarrow> pyerror + string" where
  "autobitmask val total_size index bsize keymap =
     on_success (eval_0b (bitmask_digits total_size index bsize)) (\<lambda>bitmask.
     on_success (and_shift val bitmask index) (\<lambda>key.
       case map_of keymap (str_int key) of
         None \<Rightarrow> Inl KeyError
       | Some mapped_val \<Rightarrow> Inr mapped_val))"

text \<open>
  \<open>_autobitmask_req\<close> returns \<open>False\<close> where the key is not in the map; a requirement
  value is therefore a tag or \<open>False\<close>.
\<close>

datatype reqval = Tag string | PyFalse

definition autobitmask_req ::
  "pyval \<Rightarrow> int \<Rightarrow> int \<Rightarrow> int \<Rightarrow> (string \<times> string) list \<Rightarrow> pyerror + reqval" where
  "autobitmask_req val total_size index bsize keymap =
     on_success (eval_0b (bitmask_digits total_size index bsize)) (\<lambda>bitmask.
     on_success (and_shift val bitmask index) (\<lambda>key.
       case map_of keymap (str_int key) of
         None \<Rightarrow> Inr PyFalse
       | Some mapped_val \<Rightarrow> Inr (Tag mapped_val)))"

section \<open>utils.py: decoding bit fields\<close>

definition total_size_of :: "(string \<times> bit_spec) list \<Rightarrow> int" where
  "total_size_of bitfield = sum_list (map (\<lambda>(bitf, b). bit_size b) bitfield)"

text \<open>
  The second loop over the bits of one field in \<open>_autoformat\<close>: a bit with no
  \<open>Enumerations\<close> raises \<open>KeyError\<close>.
\<close>

fun autoformat_bits ::
  "pyval \<Rightarrow> int \<Rightarrow> (string \<times> bit_spec) list \<Rightarrow> pyerror + (string \<times> string) list" where
  "autoformat_bits val total_size [] = Inr []"
| "autoformat_bits val total_size ((bitf, b) # bits) =
     (case bit_Enumerations b of
        None \<Rightarrow> Inl KeyError
      | Some key_map \<Rightarrow>
          on_success (autobitmask val total_size (bit_index b) (bit_size b) (entries key_map))
            (\<lambda>mapped. on_success (autoformat_bits val total_size bits)
               (\<lambda>rest. Inr ((bitf, mapped) # rest))))"

text \<open>The body of \<open>_autoformat\<close> for one field: no entry unless it has a Ctype and a BitField.\<close>

definition autoformat_field ::
  "pyval \<Rightarrow> field \<Rightarrow> pyerror + (string \<times> string) list option" where
  "autoformat_field val f =
     (case (Ctype f, BitField f) of
        (Some _, Some bitfield) \<Rightarrow>
          on_success (autoformat_bits val (total_size_of bitfield) bitfield) (\<lambda>d. Inr (Some d))
      | _ \<Rightarrow> Inr None)"

fun autoformat_all ::
  "pyval \<Rightarrow> (string \<times> field) list \<Rightarrow> pyerror + (string \<times> (string \<times> string) list) list" where
  "autoformat_all val [] = Inr []"
| "autoformat_all val ((name, f) # rest) =
     on_success (autoformat_field val f) (\<lambda>d.
     on_success (autoformat_all val rest) (\<lambda>ds.
       Inr (case d of None \<Rightarrow> ds | Some labels \<Rightarrow> (name, labels) # ds)))"

text \<open>
  \<open>_autoformat(char, val, field_to_unpack)\<close>. The test \<open>not field_to_unpack\<close> holds for
  \<open>None\<close> and for the empty name.
\<close>

definition autoformat ::
  "CHAR_XML \<Rightarrow> pyval \<Rightarrow> string option \<Rightarrow> pyerror + (string \<times> (string \<times> string) list) list" where
  "autoformat char val field_to_unpack =
     (if field_to_unpack = None \<or> field_to_unpack = Some []
      then autoformat_all val (xml_fields char)
      else (case map_of (xml_fields char) (the field_to_unpack) of
              None \<Rightarrow> Inl KeyError
            | Some f \<Rightarrow>
                on_success (autoformat_field val f) (\<lambda>d.
                  Inr (case d of None \<Rightarrow> [] | Some labels \<Rightarrow> [(the field_to_unpack, labels)]))))"

text \<open>
  \<open>_autoformat_reqs\<close>: the same loops over the \<open>Requires\<close> maps; a bit whose
  \<open>Enumerations\<close> has no \<open>Requires\<close> adds nothing.
\<close>

fun autoformat_reqs_bits ::
  "pyval \<Rightarrow> int \<Rightarrow> (string \<times> bit_spec) list \<Rightarrow> pyerror + (string \<times> reqval) list" where
  "autoformat_reqs_bits val total_size [] = Inr []"
| "autoformat_reqs_bits val total_size ((bitf, b) # bits) =
     (case bit_Enumerations b of
        None \<Rightarrow> Inl KeyError
      | Some key_map \<Rightarrow>
          (case Requires key_map of
             None \<Rightarrow> autoformat_reqs_bits val total_size bits
           | Some req_map \<Rightarrow>
               on_success (autobitmask_req val total_size (bit_index b) (bit_size b) req_map)
                 (\<lambda>mapped. on_success (autoformat_reqs_bits val total_size bits)
                    (\<lambda>rest. Inr ((bitf, mapped) # rest)))))"

fun autoformat_reqs_all ::
  "pyval \<Rightarrow> (string \<times> field) list \<Rightarrow> pyerror + (string \<times> (string \<times> reqval) list) list" where
  "autoformat_reqs_all val [] = Inr []"
| "autoformat_reqs_all val ((name, f) # rest) =
     (case (Ctype f, BitField f) of
        (Some _, Some bitfield) \<Rightarrow>
          on_success (autoformat_reqs_bits val (total_size_of bitfield) bitfield) (\<lambda>d.
          on_success (autoformat_reqs_all val rest) (\<lambda>ds. Inr ((name, d) # ds)))
      | _ \<Rightarrow> autoformat_reqs_all val rest)"

definition autoformat_reqs ::
  "CHAR_XML \<Rightarrow> pyval \<Rightarrow> pyerror + (string \<times> (string \<times> reqval) list) list" where
  "autoformat_reqs char val = autoformat_reqs_all val (xml_fields char)"

text \<open>\<open>list(d.values())[0]\<close>: the first value, \<open>IndexError\<close> on an empty dictionary.\<close>

definition first_value :: "('k \<times> 'v) list \<Rightarrow> pyerror + 'v" where
  "first_value d = (case d of [] \<Rightarrow> Inl IndexError | (k, v) # _ \<Rightarrow> Inr v)"

text \<open>\<open>_get_req\<close>.\<close>

definition get_req :: "field \<Rightarrow> string list" where
  "get_req char_field = Requirement char_field"

section \<open>utils.py: unpacking and scaling one value\<close>

text \<open>
  \<open>bytes.decode("utf8")\<close> raises \<open>UnicodeDecodeError\<close> unless the bytes are well-formed
  UTF-8: no stray continuation byte, no overlong form, no surrogate, nothing above
  U+10FFFF.
\<close>

definition cont_byte :: "byte \<Rightarrow> bool" where
  "cont_byte b = (0x80 \<le> unat b \<and> unat b \<le> 0xBF)"

fun utf8_ok :: "byte list \<Rightarrow> bool" where
  "utf8_ok [] = True"
| "utf8_ok [a] = (unat a < 0x80)"
| "utf8_ok [a, b] =
     (if unat a < 0x80 then utf8_ok [b]
      else 0xC2 \<le> unat a \<and> unat a \<le> 0xDF \<and> cont_byte b)"
| "utf8_ok [a, b, c] =
     (if unat a < 0x80 then utf8_ok [b, c]
      else if 0xC2 \<le> unat a \<and> unat a \<le> 0xDF then cont_byte b \<and> utf8_ok [c]
      else 0xE0 \<le> unat a \<and> unat a \<le> 0xEF \<and> cont_byte b \<and> cont_byte c
           \<and> (unat a = 0xE0 \<longrightarrow> 0xA0 \<le> unat b) \<and> (unat a = 0xED \<longrightarrow> unat b \<le> 0x9F))"
| "utf8_ok (a # b # c # d # rest) =
     (if unat a < 0x80 then utf8_ok (b # c # d # rest)
      else if 0xC2 \<le> unat a \<and> unat a \<le> 0xDF then cont_byte b \<and> utf8_ok (c # d # rest)
      else if 0xE0 \<le> unat a \<and> unat a \<le> 0xEF
        then cont_byte b \<and> cont_byte c
             \<and> (unat a = 0xE0 \<longrightarrow> 0xA0 \<le> unat b) \<and> (unat a = 0xED \<longrightarrow> unat b \<le> 0x9F)
             \<and> utf8_ok (d # rest)
      else 0xF0 \<le> unat a \<and> unat a \<le> 0xF4 \<and> cont_byte b \<and> cont_byte c \<and> cont_byte d
           \<and> (unat a = 0xF0 \<longrightarrow> 0x90 \<le> unat b) \<and> (unat a = 0xF4 \<longrightarrow> unat b \<le> 0x8F)
           \<and> utf8_ok rest)"

definition bytes_to_string :: "byte list \<Rightarrow> string" where
  "bytes_to_string bs = map (\<lambda>b. char_of (unat b)) bs"

text \<open>
  \<open>(data,) = struct.unpack(ctype, val)\<close>: the tuple must hold exactly one value, else the
  assignment raises \<open>ValueError\<close>.
\<close>

definition unpack_one :: "string \<Rightarrow> byte list \<Rightarrow> pyerror + pyval" where
  "unpack_one ctype val =
     on_success (struct_unpack ctype val)
       (\<lambda>vs. case vs of [data] \<Rightarrow> Inr data | _ \<Rightarrow> Inl ValueError)"

text \<open>\<open>_unpack_data\<close>.\<close>

definition unpack_data :: "string \<Rightarrow> byte list \<Rightarrow> pyerror + pyval" where
  "unpack_data ctype data =
     (if ctype = ''utf8''
      then (if utf8_ok data then Inr (VStr (bytes_to_string data)) else Inl UnicodeDecodeError)
      else unpack_one ctype data)"

text \<open>
  \<open>float(i)\<close> raises \<open>OverflowError\<close> when \<open>i\<close> does not round to a finite binary64.
\<close>

definition float_of_int :: "int \<Rightarrow> pyerror + pyfloat" where
  "float_of_int i =
     (if \<bar>i\<bar> < 2 ^ 1024 - 2 ^ 970 then Inr (FOfInt i) else Inl OverflowError)"

text \<open>
  The right operand of a scaling step: the int \<open>Multiplier\<close>, or \<open>10 ** e\<close> or \<open>2 ** e\<close>.
  A power of two ints is an int for \<open>e\<close> not negative; for a negative \<open>e\<close> Python converts
  base and exponent to floats, which raises \<open>OverflowError\<close> for an int too large, and
  takes the float power.
\<close>

datatype factor = IntFactor int | FloatFactor pyfloat

definition py_pow :: "int \<Rightarrow> int \<Rightarrow> pyerror + factor" where
  "py_pow b e =
     (if 0 \<le> e then Inr (IntFactor (b ^ nat e))
      else on_success (float_of_int b) (\<lambda>x.
           on_success (float_of_int e) (\<lambda>y. Inr (FloatFactor (FPow b e)))))"

text \<open>
  \<open>value * factor\<close>: ints multiply exactly (a bool counts as 0 or 1), an int meeting a
  float is converted first, a string is repeated by an int, and a string with a float
  or a dictionary with anything raises \<open>TypeError\<close>.
\<close>

fun py_mul :: "pyval \<Rightarrow> factor \<Rightarrow> pyerror + pyval" where
  "py_mul (VInt a) (IntFactor b) = Inr (VInt (a * b))"
| "py_mul (VBool a) (IntFactor b) = Inr (VInt (of_bool a * b))"
| "py_mul (VFloat x) (IntFactor b) = on_success (float_of_int b) (\<lambda>y. Inr (VFloat (FMul x y)))"
| "py_mul (VStr s) (IntFactor b) = Inr (VStr (concat (replicate (nat b) s)))"
| "py_mul (VInt a) (FloatFactor y) = on_success (float_of_int a) (\<lambda>x. Inr (VFloat (FMul x y)))"
| "py_mul (VBool a) (FloatFactor y) = Inr (VFloat (FMul (FOfInt (of_bool a)) y))"
| "py_mul (VFloat x) (FloatFactor y) = Inr (VFloat (FMul x y))"
| "py_mul (VStr s) (FloatFactor y) = Inl TypeError"
| "py_mul (VLabels d) f = Inl TypeError"

text \<open>
  The three scaling steps, in the order of the source: \<open>Multiplier\<close>, \<open>DecimalExponent\<close>,
  \<open>BinaryExponent\<close>, each applied only if the field has the key. The power is
  evaluated before the product.
\<close>

definition scale_value :: "field \<Rightarrow> pyval \<Rightarrow> pyerror + pyval" where
  "scale_value f raw =
     on_success (case Multiplier f of None \<Rightarrow> Inr raw | Some m \<Rightarrow> py_mul raw (IntFactor m))
       (\<lambda>v1. on_success
                (case DecimalExponent f of
                   None \<Rightarrow> Inr v1
                 | Some e \<Rightarrow> on_success (py_pow 10 e) (py_mul v1))
          (\<lambda>v2. case BinaryExponent f of
                   None \<Rightarrow> Inr v2
                 | Some e \<Rightarrow> on_success (py_pow 2 e) (py_mul v2)))"

text \<open>
  One entry of the result dictionary: the keys \<open>Quantity\<close>, \<open>Unit\<close> and \<open>Symbol\<close> where the
  field metadata has them, and \<open>Value\<close>.
\<close>

record field_value =
  out_Quantity :: "string option"
  out_Unit :: "string option"
  out_Symbol :: "string option"
  Value :: "pyval option"

definition with_metadata :: "field \<Rightarrow> pyval \<Rightarrow> field_value" where
  "with_metadata f v =
     \<lparr>out_Quantity = Quantity f, out_Unit = Unit f, out_Symbol = Symbol f, Value = Some v\<rparr>"

definition only_value :: "pyval \<Rightarrow> field_value" where
  "only_value v = \<lparr>out_Quantity = None, out_Unit = None, out_Symbol = None, Value = Some v\<rparr>"

definition empty_entry :: field_value where
  "empty_entry = \<lparr>out_Quantity = None, out_Unit = None, out_Symbol = None, Value = None\<rparr>"

text \<open>
  What a decode call returns: \<open>None\<close> (the function ends without a \<open>return\<close>), the
  dictionary of field values, or the list of that dictionary and \<open>_FLAGS\<close>.
\<close>

datatype result =
    RNone
  | RFields "(string \<times> field_value) list"
  | RFieldsFlags "(string \<times> field_value) list" "(string \<times> string) list option"

section \<open>utils.py: a characteristic of one field\<close>

text \<open>
  \<open>str(data)\<close> as an enumeration key. The text of a float is not modelled: a float never
  finds a key (the keys are integer codes).
\<close>

definition str_key :: "pyval \<Rightarrow> string option" where
  "str_key v =
     (case v of
        VInt i \<Rightarrow> Some (str_int i)
      | VBool b \<Rightarrow> Some (if b then ''True'' else ''False'')
      | _ \<Rightarrow> None)"

text \<open>
  The lookup \<open>keymap[str(data)]\<close> inside \<open>try\<close>: any exception is caught and the function
  goes on with the raw \<open>data\<close>.
\<close>

definition try_keymap :: "enumerations \<Rightarrow> pyval \<Rightarrow> string option" where
  "try_keymap keymap data =
     (case str_key data of None \<Rightarrow> None | Some k \<Rightarrow> map_of (entries keymap) k)"

text \<open>
  \<open>_get_single_field\<close>: the first field that has a Ctype decides; with no such field the
  function returns \<open>None\<close>. An empty \<open>Enumerations\<close> dictionary is false.
\<close>

fun get_single_field_loop ::
  "CHAR_XML \<Rightarrow> byte list \<Rightarrow> (string \<times> field) list \<Rightarrow> pyerror + result" where
  "get_single_field_loop char val [] = Inr RNone"
| "get_single_field_loop char val ((name, f) # rest) =
     (case Ctype f of
        None \<Rightarrow> get_single_field_loop char val rest
      | Some ctype \<Rightarrow>
          (case BitField f of
             Some _ \<Rightarrow>
               on_success (unpack_one ctype val) (\<lambda>raw_data.
               on_success (autoformat char raw_data None) (\<lambda>decoded.
               on_success (first_value decoded) (\<lambda>data.
                 Inr (RFields [(name, only_value (VLabels data))]))))
           | None \<Rightarrow>
               (case Enumerations f of
                  Some keymap \<Rightarrow>
                    on_success (unpack_one ctype val) (\<lambda>data.
                      case (if entries keymap \<noteq> [] \<or> Requires keymap \<noteq> None
                            then try_keymap keymap data else None) of
                        Some mapped_val \<Rightarrow> Inr (RFields [(name, only_value (VStr mapped_val))])
                      | None \<Rightarrow>
                          on_success (scale_value f data) (\<lambda>formatted_value.
                            Inr (RFields [(name, with_metadata f formatted_value)])))
                | None \<Rightarrow>
                    on_success (unpack_data ctype val) (\<lambda>data.
                    on_success (scale_value f data) (\<lambda>formatted_value.
                      Inr (RFields [(name, with_metadata f formatted_value)]))))))"

definition get_single_field :: "CHAR_XML \<Rightarrow> byte list \<Rightarrow> pyerror + result" where
  "get_single_field char val = get_single_field_loop char val (xml_fields char)"

section \<open>utils.py: a characteristic of several fields\<close>

text \<open>
  The first block of \<open>_get_multiple_fields\<close>. Where the characteristic has a field \<open>Flags\<close>
  with a Ctype and a BitField, the leading bytes are unpacked and decoded twice; the
  result holds \<open>ctype_flag\<close>, \<open>_FLAGS\<close> and \<open>_REQS\<close>. Otherwise \<open>_FLAGS\<close> and \<open>_REQS\<close> stay
  \<open>None\<close>.
\<close>

record flags_state =
  ctype_flag :: string
  FLAGS :: "(string \<times> string) list"
  REQS :: "(string \<times> reqval) list"

definition decode_flags :: "CHAR_XML \<Rightarrow> byte list \<Rightarrow> pyerror + flags_state option" where
  "decode_flags char val =
     (case map_of (xml_fields char) ''Flags'' of
        None \<Rightarrow> Inr None
      | Some fl \<Rightarrow>
          (case (Ctype fl, BitField fl) of
             (Some ct, Some _) \<Rightarrow>
               on_success (struct_calcsize ct) (\<lambda>n.
               on_success (unpack_one ct (take n val)) (\<lambda>raw_data.
               on_success (autoformat char raw_data None) (\<lambda>decoded.
               on_success (first_value decoded) (\<lambda>flags.
               on_success (autoformat_reqs char raw_data) (\<lambda>decoded_reqs.
               on_success (first_value decoded_reqs) (\<lambda>reqs.
                 Inr (Some \<lparr>ctype_flag = ct, FLAGS = flags, REQS = reqs\<rparr>)))))))
           | _ \<Rightarrow> Inr None))"

text \<open>
  \<open>all([req in _REQS.values() for req in field_req])\<close>: for an empty \<open>field_req\<close> the
  comprehension never evaluates \<open>_REQS.values()\<close> and \<open>all\<close> of the empty list is true;
  otherwise \<open>None.values()\<close> raises \<open>AttributeError\<close>. A tag is never equal to \<open>False\<close>.
\<close>

definition read_field :: "(string \<times> reqval) list option \<Rightarrow> string list \<Rightarrow> pyerror + bool" where
  "read_field reqs field_req =
     (if field_req = [] then Inr True
      else (case reqs of
              None \<Rightarrow> Inl AttributeError
            | Some d \<Rightarrow> Inr (list_all (\<lambda>req. Tag req \<in> set (map snd d)) field_req)))"

text \<open>
  The selection loop, which both branches of \<open>_get_multiple_fields\<close> run: the names of
  \<open>_FIELDS_TO_READ\<close>, in the order of \<open>char.fields\<close>.
\<close>

fun select_fields ::
  "(string \<times> reqval) list option \<Rightarrow> (string \<times> field) list \<Rightarrow> pyerror + string list" where
  "select_fields reqs [] = Inr []"
| "select_fields reqs ((name, f) # rest) =
     (if name \<noteq> ''Flags'' then
        (if ''Mandatory'' \<in> set (get_req f)
         then on_success (select_fields reqs rest) (\<lambda>more. Inr (name # more))
         else on_success (read_field reqs (get_req f)) (\<lambda>rd.
              on_success (select_fields reqs rest) (\<lambda>more. Inr (if rd then name # more else more))))
      else select_fields reqs rest)"

text \<open>\<open>list.index\<close>: the first position of a value, \<open>ValueError\<close> if there is none.\<close>

fun index_of :: "'a \<Rightarrow> 'a list \<Rightarrow> nat option" where
  "index_of x [] = None"
| "index_of x (y # ys) = (if x = y then Some 0 else map_option Suc (index_of x ys))"

text \<open>\<open>d[k] = v\<close> for every pair of a list, in order, on a dictionary \<open>d\<close>.\<close>

definition dict_update_all :: "('k \<times> 'v) list \<Rightarrow> ('k \<times> 'v) list \<Rightarrow> ('k \<times> 'v) list" where
  "dict_update_all d pairs = fold (\<lambda>(k, v). AList.update k v) pairs d"

text \<open>The Ctypes of the fields of a characteristic, concatenated in order.\<close>

definition ctypes_of :: "(string \<times> field) list \<Rightarrow> string" where
  "ctypes_of fs = concat (map (\<lambda>(name, f). case Ctype f of None \<Rightarrow> [] | Some c \<Rightarrow> c) fs)"

text \<open>
  The state of the reference loop: \<open>_FIELDS_TO_READ\<close>, \<open>ctype_global\<close> and
  \<open>_REFERENCE_FIELDS\<close>.
\<close>

record expansion =
  FIELDS_TO_READ :: "string list"
  ctype_global :: string
  REFERENCE_FIELDS :: "(string \<times> field) list"

text \<open>
  The reference loop over the copy of \<open>_FIELDS_TO_READ\<close>. \<open>get_xml_char\<close> stands for the
  function of that name, which reads and parses an XML file: it is a parameter, and
  \<open>None\<close> means that it raises. A field with a \<open>Reference\<close> is replaced, at its first
  position in \<open>_FIELDS_TO_READ\<close>, by the names of all fields of the referenced
  characteristic; their Ctypes are appended to \<open>ctype_global\<close>.
\<close>

fun expand_references ::
  "(string \<Rightarrow> CHAR_XML option) \<Rightarrow> CHAR_XML \<Rightarrow> string list \<Rightarrow> expansion \<Rightarrow> pyerror + expansion" where
  "expand_references get_xml_char char [] st = Inr st"
| "expand_references get_xml_char char (fld # rest) st =
     (case map_of (xml_fields char) fld of
        None \<Rightarrow> Inl KeyError
      | Some f \<Rightarrow>
          (let st1 = (case Ctype f of
                        None \<Rightarrow> st
                      | Some ctype \<Rightarrow> st\<lparr>ctype_global := ctype_global st @ ctype\<rparr>)
           in case Reference f of
                None \<Rightarrow> expand_references get_xml_char char rest st1
              | Some reference \<Rightarrow>
                  (case get_xml_char reference of
                     None \<Rightarrow> Inl XmlLoadError
                   | Some reference_char \<Rightarrow>
                       (case index_of fld (FIELDS_TO_READ st1) of
                          None \<Rightarrow> Inl ValueError
                        | Some char_index \<Rightarrow>
                            expand_references get_xml_char char rest
                              \<lparr>FIELDS_TO_READ =
                                 take char_index (FIELDS_TO_READ st1)
                                 @ map fst (xml_fields reference_char)
                                 @ drop (Suc char_index) (FIELDS_TO_READ st1),
                               ctype_global = ctype_global st1 @ ctypes_of (xml_fields reference_char),
                               REFERENCE_FIELDS =
                                 dict_update_all (REFERENCE_FIELDS st1) (xml_fields reference_char)\<rparr>))))"

text \<open>
  The body of the formatting loop for one name of \<open>_FIELDS_TO_READ\<close>: the entry that
  \<open>_FIELDS_VALS\<close> gets for it. A name of \<open>char.fields\<close> takes the metadata of \<open>char\<close>,
  any other name that of \<open>_REFERENCE_FIELDS\<close>; a missing raw value or reference entry
  raises \<open>KeyError\<close>. Only the branch taken with flags (\<open>with_flags\<close>) decodes a BitField
  of the field again, and packs the value of a referenced field that has a BitField.
\<close>

definition format_field ::
  "bool \<Rightarrow> CHAR_XML \<Rightarrow> (string \<times> pyval) list \<Rightarrow> (string \<times> field) list \<Rightarrow> string
     \<Rightarrow> pyerror + field_value" where
  "format_field with_flags char raw_vals refs fld =
     (case map_of (xml_fields char) fld of
        Some f \<Rightarrow>
          (case map_of raw_vals fld of
             None \<Rightarrow> Inl KeyError
           | Some raw \<Rightarrow>
               on_success (scale_value f raw) (\<lambda>scaled.
               on_success
                 (if with_flags \<and> BitField f \<noteq> None
                  then on_success (autoformat char scaled (Some fld)) (\<lambda>decoded.
                       on_success (first_value decoded) (\<lambda>d. Inr (VLabels d)))
                  else Inr scaled)
                 (\<lambda>formatted_value. Inr (with_metadata f formatted_value))))
      | None \<Rightarrow>
          (if refs \<noteq> [] then
             (case map_of refs fld of
                None \<Rightarrow> Inl KeyError
              | Some rf \<Rightarrow>
                  (case map_of raw_vals fld of
                     None \<Rightarrow> Inl KeyError
                   | Some raw \<Rightarrow>
                       on_success (scale_value rf raw) (\<lambda>formatted_value.
                         if with_flags \<and> BitField rf \<noteq> None
                         then (case Ctype rf of
                                 None \<Rightarrow> Inl KeyError
                               | Some ct \<Rightarrow>
                                   (case struct_pack_raises ct formatted_value of
                                      Some e \<Rightarrow> Inl e
                                    | None \<Rightarrow> Inr (with_metadata rf formatted_value)))
                         else Inr (with_metadata rf formatted_value))))
           else Inr empty_entry))"

text \<open>The formatting loop: \<open>_FIELDS_VALS[field]\<close> is set for each name in turn.\<close>

fun format_fields ::
  "bool \<Rightarrow> CHAR_XML \<Rightarrow> (string \<times> pyval) list \<Rightarrow> (string \<times> field) list \<Rightarrow> string list
     \<Rightarrow> (string \<times> field_value) list \<Rightarrow> pyerror + (string \<times> field_value) list" where
  "format_fields with_flags char raw_vals refs [] acc = Inr acc"
| "format_fields with_flags char raw_vals refs (fld # rest) acc =
     on_success (format_field with_flags char raw_vals refs fld)
       (\<lambda>entry. format_fields with_flags char raw_vals refs rest (AList.update fld entry acc))"

text \<open>
  \<open>_complete_bytes\<close> is defined at module level with the two parameters \<open>self\<close> and \<open>bb\<close>.
\<close>

definition complete_bytes :: "byte list \<Rightarrow> byte list \<Rightarrow> byte list" where
  "complete_bytes self bb = (if length bb mod 2 = 0 then bb else 0x00 # bb)"

text \<open>
  A call of \<open>_complete_bytes\<close> with a list of positional arguments: Python binds them to
  the parameters in order and raises \<open>TypeError\<close> unless each parameter gets one.
\<close>

definition call_complete_bytes :: "byte list list \<Rightarrow> pyerror + byte list" where
  "call_complete_bytes args =
     (case args of [self, bb] \<Rightarrow> Inr (complete_bytes self bb) | _ \<Rightarrow> Inl TypeError)"

text \<open>
  The tail of both branches: expand the references, unpack the blob against
  \<open>ctype_global\<close>, zip the values with \<open>_FIELDS_TO_READ\<close> and format them. The branch
  with flags starts \<open>ctype_global\<close> with \<open>ctype_flag\<close>, calls \<open>_complete_bytes(val)\<close> with
  the one argument \<open>val\<close>, and drops the first unpacked value (\<open>flag, *data\<close>, which needs
  at least one value).
\<close>

definition read_selected ::
  "(string \<Rightarrow> CHAR_XML option) \<Rightarrow> CHAR_XML \<Rightarrow> byte list \<Rightarrow> bool \<Rightarrow> flags_state option
     \<Rightarrow> bool \<Rightarrow> string list \<Rightarrow> pyerror + result" where
  "read_selected get_xml_char char val rtn_flags fs with_flags selected =
     (if selected \<noteq> [] then
        on_success
          (expand_references get_xml_char char selected
             \<lparr>FIELDS_TO_READ = selected,
              ctype_global = (if with_flags then (case fs of Some s \<Rightarrow> ctype_flag s | None \<Rightarrow> [])
                              else []),
              REFERENCE_FIELDS = []\<rparr>)
          (\<lambda>st.
             on_success
               (if with_flags
                then on_success (call_complete_bytes [val]) (\<lambda>val'.
                     on_success (struct_unpack (ctype_global st) val') (\<lambda>vs.
                       case vs of [] \<Rightarrow> Inl ValueError | flag # data \<Rightarrow> Inr data))
                else struct_unpack (ctype_global st) val)
               (\<lambda>data.
                  on_success
                    (format_fields with_flags char
                       (dict_update_all [] (zip (FIELDS_TO_READ st) data))
                       (REFERENCE_FIELDS st) (FIELDS_TO_READ st) [])
                    (\<lambda>vals. Inr (if \<not> rtn_flags then RFields vals
                                  else RFieldsFlags vals (map_option FLAGS fs)))))
      else Inr RNone)"

text \<open>
  \<open>_get_multiple_fields\<close>. The branch with flags is taken when \<open>_FLAGS\<close> is a dictionary
  that is not empty; in the other branch \<open>_REQS\<close> is \<open>None\<close>, or the dictionary decoded
  along with an empty \<open>_FLAGS\<close>.
\<close>

definition get_multiple_fields ::
  "(string \<Rightarrow> CHAR_XML option) \<Rightarrow> CHAR_XML \<Rightarrow> byte list \<Rightarrow> bool \<Rightarrow> pyerror + result" where
  "get_multiple_fields get_xml_char char val rtn_flags =
     on_success (decode_flags char val) (\<lambda>fs.
       let with_flags = (case fs of None \<Rightarrow> False | Some s \<Rightarrow> FLAGS s \<noteq> [])
       in on_success (select_fields (map_option REQS fs) (xml_fields char))
            (read_selected get_xml_char char val rtn_flags fs with_flags))"

text \<open>
  \<open>get_char_value\<close>: a characteristic given by name is looked up first; one field goes
  to \<open>_get_single_field\<close>, any other number of fields to \<open>_get_multiple_fields\<close>.
\<close>

datatype characteristic = ByName string | ByXml CHAR_XML

definition get_char_value ::
  "(string \<Rightarrow> CHAR_XML option) \<Rightarrow> byte list \<Rightarrow> characteristic \<Rightarrow> bool \<Rightarrow> pyerror + result" where
  "get_char_value get_xml_char v characteristic rtn_flags =
     on_success
       (case characteristic of
          ByXml c \<Rightarrow> Inr c
        | ByName n \<Rightarrow> (case get_xml_char n of None \<Rightarrow> Inl XmlLoadError | Some c \<Rightarrow> Inr c))
       (\<lambda>char. if length (xml_fields char) = 1 then get_single_field char v
                else get_multiple_fields get_xml_char char v rtn_flags)"

section \<open>Selection and reference expansion, stated directly\<close>

text \<open>
  The inclusion rule of the selection loop as a predicate on one entry of
  \<open>char.fields\<close>, for a requirement dictionary that may be \<open>None\<close>.
\<close>

definition selects :: "(string \<times> reqval) list option \<Rightarrow> string \<times> field \<Rightarrow> bool" where
  "selects reqs p = (fst p \<noteq> ''Flags'' \<and>
      (''Mandatory'' \<in> set (get_req (snd p))
       \<or> (case reqs of
             None \<Rightarrow> get_req (snd p) = []
           | Some d \<Rightarrow> (\<forall>req\<in>set (get_req (snd p)). Tag req \<in> set (map snd d)))))"





section \<open>Example metadata\<close>

text \<open>A field dictionary with no key, the starting point of the examples.\<close>

definition no_keys :: field where
  "no_keys =
     \<lparr>Format = None, Requirement = [], Enumerations = None, BitField = None, Reference = None,
      Multiplier = None, DecimalExponent = None, BinaryExponent = None,
      Quantity = None, Unit = None, Symbol = None\<rparr>"

text \<open>A field of a given format and requirement tags, as the parser builds it.\<close>

definition plain_field :: "string \<Rightarrow> string list \<Rightarrow> field" where
  "plain_field fmt reqs = no_keys\<lparr>Format := Some fmt, Requirement := reqs\<rparr>"

text \<open>No XML file can be loaded.\<close>

definition no_xml :: "string \<Rightarrow> CHAR_XML option" where
  "no_xml n = None"

text \<open>
  A one-bit Flags field: bit 0 is labelled \<open>absent\<close> or \<open>present\<close>, and the value 1
  requires the tag \<open>T\<close>.
\<close>

definition flags_bit0 :: field where
  "flags_bit0 =
     (plain_field ''8bit'' [''Mandatory''])
       \<lparr>BitField := Some [(''B present'',
          \<lparr>bit_index = 0, bit_size = 1,
           bit_Enumerations =
             Some \<lparr>entries = [(''0'', ''absent''), (''1'', ''present'')],
                   Requires = Some [(''1'', ''T'')]\<rparr>\<rparr>)]\<rparr>"

text \<open>Flags, a mandatory field A and a field B that requires \<open>T\<close>; all of one byte.\<close>

definition flags_A_B :: CHAR_XML where
  "flags_A_B =
     \<lparr>xml_fields = [(''Flags'', flags_bit0),
                    (''A'', plain_field ''uint8'' [''Mandatory'']),
                    (''B'', plain_field ''uint8'' [''T''])]\<rparr>"

text \<open>Two mandatory fields and no Flags: a uint8 and a uint24.\<close>

definition uint8_uint24 :: CHAR_XML where
  "uint8_uint24 =
     \<lparr>xml_fields = [(''A'', plain_field ''uint8'' [''Mandatory'']),
                    (''B'', plain_field ''uint24'' [''Mandatory''])]\<rparr>"

text \<open>
  One field with a two-bit sub-range whose enumeration knows the keys 0 and 1 only.
\<close>

definition two_bit_enum :: CHAR_XML where
  "two_bit_enum =
     \<lparr>xml_fields = [(''Mode'',
        (plain_field ''8bit'' [''Mandatory''])
          \<lparr>BitField := Some [(''Kind'',
             \<lparr>bit_index = 0, bit_size = 2,
              bit_Enumerations =
                Some \<lparr>entries = [(''0'', ''off''), (''1'', ''on'')], Requires = None\<rparr>\<rparr>)]\<rparr>)]\<rparr>"

text \<open>A mandatory field and a field that requires \<open>T\<close>, with no Flags.\<close>

definition tagged_no_flags :: CHAR_XML where
  "tagged_no_flags =
     \<lparr>xml_fields = [(''A'', plain_field ''uint8'' [''Mandatory'']),
                    (''B'', plain_field ''uint8'' [''T''])]\<rparr>"

text \<open>
  A Flags field whose BitField has no Bit, a mandatory field A and a field B with the
  tag \<open>C1\<close>.
\<close>

definition empty_flags_A_B :: CHAR_XML where
  "empty_flags_A_B =
     \<lparr>xml_fields = [(''Flags'', (plain_field ''8bit'' [''Mandatory''])\<lparr>BitField := Some []\<rparr>),
                    (''A'', plain_field ''uint8'' [''Mandatory'']),
                    (''B'', plain_field ''uint8'' [''C1''])]\<rparr>"

text \<open>Flags and a field with no requirement tag.\<close>

definition flags_untagged :: CHAR_XML where
  "flags_untagged =
     \<lparr>xml_fields = [(''Flags'', flags_bit0), (''A'', plain_field ''uint8'' [])]\<rparr>"

text \<open>
  A mandatory field S whose BitField has no Bit, then Flags, then a mandatory field A.
\<close>

definition S_before_flags :: CHAR_XML where
  "S_before_flags =
     \<lparr>xml_fields = [(''S'', (plain_field ''8bit'' [''Mandatory''])\<lparr>BitField := Some []\<rparr>),
                    (''Flags'', flags_bit0),
                    (''A'', plain_field ''uint8'' [''Mandatory''])]\<rparr>"

text \<open>Flags and a mandatory field that refers to a characteristic.\<close>

definition flags_reference :: CHAR_XML where
  "flags_reference =
     \<lparr>xml_fields = [(''Flags'', flags_bit0),
                    (''R'', no_keys\<lparr>Requirement := [''Mandatory''], Reference := Some ''Date''\<rparr>)]\<rparr>"

text \<open>
  A referenced characteristic \<open>Date\<close> with the fields Year (uint16, in years) and Month
  (uint8, scaled by 3), and the lookup that knows only this characteristic.
\<close>

definition year_field :: field where
  "year_field =
     (plain_field ''uint16'' [''Mandatory''])
       \<lparr>Quantity := Some ''time'', Unit := Some ''year'', Symbol := Some ''Y''\<rparr>"

definition month_field :: field where
  "month_field = (plain_field ''uint8'' [''Mandatory''])\<lparr>Multiplier := Some 3\<rparr>"

definition date_char :: CHAR_XML where
  "date_char = \<lparr>xml_fields = [(''Year'', year_field), (''Month'', month_field)]\<rparr>"

definition date_xml :: "string \<Rightarrow> CHAR_XML option" where
  "date_xml n = (if n = ''Date'' then Some date_char else None)"



section \<open>The IEEE-11073 codecs: properties\<close>

lemma bit7_of_byte: "0 \<le> (k::int) \<Longrightarrow> k < 256 \<Longrightarrow> bit k 7 \<longleftrightarrow> 128 \<le> k"
  by (simp add: bit_iff_odd) presburger

lemma sint_byte: "sint (b::byte) = (if uint b < 128 then uint b else uint b - 256)"
proof -
  have r: "0 \<le> uint b" "uint b < 256"
    using uint_bounded [of b] by simp_all
  have "sint b = take_bit 8 (uint b) - 2 ^ 8 * of_bool (bit (uint b) 7)"
    by (simp add: sint_uint signed_take_bit_eq_take_bit_minus)
  moreover have "take_bit 8 (uint b) = uint b"
    using r by (simp add: take_bit_int_eq_self)
  ultimately show ?thesis
    using bit7_of_byte [OF r] by simp
qed

text \<open>
  Padding the three mantissa bytes with \<open>0x00\<close> or \<open>0xff\<close> after the sign of the third and
  reading 32 bits gives the 24-bit two's-complement mantissa.
\<close>

lemma mantissa_pad:
  "unpack_i ([ma, mb, mc] @ [if 0 \<le> sint mc then 0x00 else 0xff])
     = to_signed 24 (le_uint [ma, mb, mc])"
proof -
  have r: "uint ma < 256" "uint mb < 256" "uint mc < 256"
    using uint_bounded [of ma] uint_bounded [of mb] uint_bounded [of mc] by simp_all
  have n: "0 \<le> uint ma" "0 \<le> uint mb"
    by simp_all
  show ?thesis
    using r by (simp add: unpack_i_def to_signed_def sint_byte) (use n in linarith)
qed

lemma decode_FLOAT_exponent_0:
  assumes "sint ex = 0"
  shows "decode_FLOAT_ieee11073 [ma, mb, mc, ex] =
     (case map_of special_values_FLOAT (to_signed 24 (le_uint [ma, mb, mc])) of
        Some l \<Rightarrow> Inr (Special l)
      | None \<Rightarrow>
          Inr (Number (FDiv (FOfInt (to_signed 24 (le_uint [ma, mb, mc])))
                            (reciprocal_pow10 0))))"
proof (cases "0 \<le> sint mc")
  case True
  with assms mantissa_pad [of ma mb mc] show ?thesis
    by (simp add: decode_FLOAT_ieee11073_def Let_def del: le_uint.simps split: option.splits)
next
  case False
  with assms mantissa_pad [of ma mb mc] show ?thesis
    by (simp add: decode_FLOAT_ieee11073_def Let_def del: le_uint.simps split: option.splits)
qed

text \<open>
  C9. For every four-byte input whose exponent byte reads 0, \<open>decode_FLOAT_ieee11073\<close>
  returns a label and no number when the 24-bit two's-complement mantissa is one of the
  five reserved codes: \<open>2^23 - 2\<close> gives the text \<open>+INFINITY\<close>, \<open>2^23 - 1\<close> gives \<open>NaN\<close>,
  \<open>-2^23\<close> gives \<open>NRes\<close>, \<open>-(2^23 - 1)\<close> gives \<open>Reserved for future use\<close> and \<open>-(2^23 - 2)\<close>
  gives \<open>INFINITY\<close> preceded by an en dash (U+2013).
\<close>

theorem decode_FLOAT_special_values:
  assumes "sint ex = 0"
  shows "(to_signed 24 (le_uint [ma, mb, mc]) = 2 ^ 23 - 2 \<longrightarrow>
            decode_FLOAT_ieee11073 [ma, mb, mc, ex] = Inr (Special ''+INFINITY''))
       \<and> (to_signed 24 (le_uint [ma, mb, mc]) = 2 ^ 23 - 1 \<longrightarrow>
            decode_FLOAT_ieee11073 [ma, mb, mc, ex] = Inr (Special ''NaN''))
       \<and> (to_signed 24 (le_uint [ma, mb, mc]) = - (2 ^ 23) \<longrightarrow>
            decode_FLOAT_ieee11073 [ma, mb, mc, ex] = Inr (Special ''NRes''))
       \<and> (to_signed 24 (le_uint [ma, mb, mc]) = - (2 ^ 23 - 1) \<longrightarrow>
            decode_FLOAT_ieee11073 [ma, mb, mc, ex] = Inr (Special ''Reserved for future use''))
       \<and> (to_signed 24 (le_uint [ma, mb, mc]) = - (2 ^ 23 - 2) \<longrightarrow>
            decode_FLOAT_ieee11073 [ma, mb, mc, ex]
              = Inr (Special (CHR 0xE2 # CHR 0x80 # CHR 0x93 # ''INFINITY'')))"
  by (simp add: decode_FLOAT_exponent_0 [OF assms] special_values_FLOAT_def en_dash_INFINITY_def
      del: le_uint.simps)

theorem decode_FLOAT_special_values_witness:
  "sint (0x00 :: byte) = 0
   \<and> to_signed 24 (le_uint [0xFF, 0xFF, 0x7F]) = 2 ^ 23 - 1
   \<and> decode_FLOAT_ieee11073 [0xFF, 0xFF, 0x7F, 0x00] = Inr (Special ''NaN'')
   \<and> to_signed 24 (le_uint [0x02, 0x00, 0x80]) = - (2 ^ 23 - 2)
   \<and> decode_FLOAT_ieee11073 [0x02, 0x00, 0x80, 0x00]
       = Inr (Special (CHR 0xE2 # CHR 0x80 # CHR 0x93 # ''INFINITY''))"
  using decode_FLOAT_special_values [where ex = "0x00" and ma = "0xFF" and mb = "0xFF" and mc = "0x7F"]
    decode_FLOAT_special_values [where ex = "0x00" and ma = "0x02" and mb = "0x00" and mc = "0x80"]
  by (simp add: to_signed_def)

text \<open>
  The bytes \<open>01 00 80 00\<close> hold the mantissa \<open>-(2^23 - 1)\<close> and the bytes \<open>02 00 80 00\<close> the
  mantissa \<open>-(2^23 - 2)\<close>, both with exponent 0. The labels returned are not the text
  \<open>Reserved\<close> and not \<open>INFINITY\<close> preceded by the minus sign U+2212 (the bytes \<open>E2 88 92\<close>).
\<close>

theorem decode_FLOAT_labels_are_not_Reserved_and_minus_sign:
  "sint (0x00 :: byte) = 0
   \<and> to_signed 24 (le_uint [0x01, 0x00, 0x80]) = - (2 ^ 23 - 1)
   \<and> decode_FLOAT_ieee11073 [0x01, 0x00, 0x80, 0x00] = Inr (Special ''Reserved for future use'')
   \<and> decode_FLOAT_ieee11073 [0x01, 0x00, 0x80, 0x00] \<noteq> Inr (Special ''Reserved'')
   \<and> to_signed 24 (le_uint [0x02, 0x00, 0x80]) = - (2 ^ 23 - 2)
   \<and> decode_FLOAT_ieee11073 [0x02, 0x00, 0x80, 0x00]
       = Inr (Special (CHR 0xE2 # CHR 0x80 # CHR 0x93 # ''INFINITY''))
   \<and> decode_FLOAT_ieee11073 [0x02, 0x00, 0x80, 0x00]
       \<noteq> Inr (Special (CHR 0xE2 # CHR 0x88 # CHR 0x92 # ''INFINITY''))"
  by code_simp

text \<open>
  C4. On the bytes \<open>01 10\<close> (exponent nibble 1, mantissa 1) \<open>decode_SFLOAT_ieee11073\<close>
  returns the quotient \<open>1 / 10\<close>, and on \<open>01 F0\<close> (exponent nibble 15, which is -1 in two's
  complement) the quotient \<open>1 / 10^15\<close>: the exponent is read unsigned and the mantissa
  divided by its power of ten, where mantissa times ten to the signed exponent is 10 and
  one tenth.
\<close>

theorem decode_SFLOAT_divides_by_unsigned_exponent:
  "decode_SFLOAT_ieee11073 [0x01, 0x10] = Inr (Number (FTrueDiv 1 10))
   \<and> decode_SFLOAT_ieee11073 [0x01, 0xF0] = Inr (Number (FTrueDiv 1 (10 ^ 15)))
   \<and> twos_comp_dec 1 4 = 1 \<and> twos_comp_dec 15 4 = - 1"
  by code_simp

text \<open>
  C6. \<open>encode_SFLOAT_ieee11073\<close> accepts the mantissa -3000, whose magnitude exceeds
  \<open>2^11\<close>: the assertion tests the upper bound only, and \<open>twos_comp\<close> masks the value to the
  twelve bits of 1096. With precision 8 and mantissa 0 the signed conversion to two bytes
  raises \<open>OverflowError\<close>.
\<close>

theorem encode_SFLOAT_negative_mantissa_wraps:
  "encode_SFLOAT_ieee11073 (- 3000) 0 = Inr [0x48, 0x04]
   \<and> decode_SFLOAT_ieee11073 [0x48, 0x04] = Inr (Number (FTrueDiv 1096 1))
   \<and> encode_SFLOAT_ieee11073 0 8 = Inl OverflowError"
  by code_simp

section \<open>Decoding characteristics: properties\<close>

lemma on_success_simps [simp]:
  "on_success (Inl e) f = Inl e" "on_success (Inr x) f = f x"
  by (simp_all add: on_success_def)

lemma on_success_Inr_iff:
  "on_success m f = Inr y \<longleftrightarrow> (\<exists>x. m = Inr x \<and> f x = Inr y)"
  by (cases m) simp_all


text \<open>
  C1. The characteristic has the fields Flags (one bit; the value 1 requires \<open>T\<close>), A
  (mandatory) and B (requires \<open>T\<close>), each of one byte. Neither the blob \<open>01 02 03\<close> nor the
  blob \<open>00 02\<close> is decoded: \<open>get_char_value\<close> raises \<open>TypeError\<close> on both, at the call
  of \<open>_complete_bytes\<close> with one argument.
\<close>

theorem flags_A_B_raises_TypeError:
  "get_char_value no_xml [0x01, 0x02, 0x03] (ByXml flags_A_B) False = Inl TypeError
   \<and> get_char_value no_xml [0x00, 0x02] (ByXml flags_A_B) False = Inl TypeError"
  by code_simp

text \<open>
  C5. A uint8 field followed by a uint24 field, with the blob \<open>01 02 00 00\<close> of one and
  three bytes: \<open>uint24\<close> is unpacked with the code \<open>I\<close> of four bytes, aligned to a
  multiple of four, so the format \<open>BI\<close> asks for eight bytes and \<open>get_char_value\<close> raises
  \<open>struct.error\<close>.
\<close>

theorem uint24_takes_four_aligned_bytes:
  "map_of DATA_FMT ''uint24'' = Some ''I'' \<and> map_of DATA_FMT ''sint24'' = Some ''I''
   \<and> struct_calcsize ''I'' = Inr 4 \<and> struct_calcsize ''BI'' = Inr 8
   \<and> get_char_value no_xml [0x01, 0x02, 0x00, 0x00] (ByXml uint8_uint24) False = Inl StructError"
  by code_simp

text \<open>
  C7. A single field with a two-bit sub-range whose enumeration has the keys 0 and 1:
  on the byte \<open>02\<close> the key 2 is missing and \<open>get_char_value\<close> raises \<open>KeyError\<close>; it
  does not return the raw integer.
\<close>

theorem bitfield_key_miss_raises_KeyError:
  "get_char_value no_xml [0x02] (ByXml two_bit_enum) False = Inl KeyError"
  by code_simp

subsection \<open>Selection\<close>

lemma selects_pair:
  "selects reqs (name, f) = (name \<noteq> ''Flags'' \<and>
      (''Mandatory'' \<in> set (get_req f)
       \<or> (case reqs of
             None \<Rightarrow> get_req f = []
           | Some d \<Rightarrow> (\<forall>req\<in>set (get_req f). Tag req \<in> set (map snd d)))))"
  by (simp add: selects_def split: option.splits)

lemma select_fields_filter:
  "select_fields reqs fs = Inr sel \<Longrightarrow> sel = map fst (filter (selects reqs) fs)"
proof (induction fs arbitrary: sel)
  case Nil
  then show ?case by simp
next
  case (Cons p fs)
  obtain name f where p: "p = (name, f)" by (cases p)
  from Cons.prems obtain more where more: "select_fields reqs fs = Inr more"
    by (auto simp: p on_success_Inr_iff split: if_splits)
  from Cons.IH [OF more] have IH: "more = map fst (filter (selects reqs) fs)" .
  from Cons.prems more IH show ?case
    by (auto simp: p selects_pair read_field_def list_all_iff on_success_Inr_iff split: if_splits option.splits)
qed

lemma select_fields_names:
  assumes "select_fields reqs fs = Inr sel"
  shows "set sel \<subseteq> fst ` set fs" and "distinct (map fst fs) \<Longrightarrow> distinct sel"
  using select_fields_filter [OF assms] by (auto simp: distinct_map_filter)

subsection \<open>The reference loop\<close>

lemma index_of_member:
  "x \<in> set xs \<Longrightarrow> \<exists>i. index_of x xs = Some i \<and> i < length xs \<and> xs ! i = x \<and> x \<notin> set (take i xs)"
proof (induction xs)
  case Nil
  then show ?case by simp
next
  case (Cons y ys)
  show ?case
  proof (cases "x = y")
    case True
    then show ?thesis by simp
  next
    case False
    with Cons.prems have "x \<in> set ys" by simp
    from Cons.IH [OF this] obtain i where "index_of x ys = Some i" "i < length ys" "ys ! i = x" "x \<notin> set (take i ys)"
      by blast
    with False show ?thesis by auto
  qed
qed

lemma expand_references_returns:
  assumes "distinct rest"
    and "set rest \<subseteq> set (FIELDS_TO_READ st)"
    and "\<forall>n\<in>set rest. map_of (xml_fields char) n \<noteq> None"
    and "\<forall>n\<in>set rest. \<forall>f ref. map_of (xml_fields char) n = Some f \<longrightarrow> Reference f = Some ref \<longrightarrow> g ref \<noteq> None"
  shows "\<exists>st'. expand_references g char rest st = Inr st'"
  using assms
proof (induction rest arbitrary: st)
  case Nil
  then show ?case by simp
next
  case (Cons fld rest)
  from Cons.prems(3) obtain f where f: "map_of (xml_fields char) fld = Some f" by auto
  define st1 where "st1 = (case Ctype f of None \<Rightarrow> st | Some ctype \<Rightarrow> st\<lparr>ctype_global := ctype_global st @ ctype\<rparr>)"
  have ftr1: "FIELDS_TO_READ st1 = FIELDS_TO_READ st"
    by (simp add: st1_def split: option.splits)
  have d: "distinct rest" and ni: "fld \<notin> set rest" using Cons.prems(1) by simp_all
  have r3: "\<forall>n\<in>set rest. map_of (xml_fields char) n \<noteq> None" using Cons.prems(3) by simp
  have r4: "\<forall>n\<in>set rest. \<forall>f ref. map_of (xml_fields char) n = Some f \<longrightarrow> Reference f = Some ref \<longrightarrow> g ref \<noteq> None"
    using Cons.prems(4) by simp
  show ?case
  proof (cases "Reference f")
    case None
    have "set rest \<subseteq> set (FIELDS_TO_READ st1)" using Cons.prems(2) ftr1 by simp
    from Cons.IH [OF d this r3 r4] show ?thesis
      by (simp add: f None st1_def [symmetric] Let_def)
  next
    case (Some ref)
    with Cons.prems(4) f obtain X where X: "g ref = Some X" by fastforce
    have "fld \<in> set (FIELDS_TO_READ st1)" using Cons.prems(2) ftr1 by simp
    from index_of_member [OF this] obtain i where i: "index_of fld (FIELDS_TO_READ st1) = Some i"
      "i < length (FIELDS_TO_READ st1)" "FIELDS_TO_READ st1 ! i = fld" by blast
    define st2 where "st2 = \<lparr>FIELDS_TO_READ = take i (FIELDS_TO_READ st1) @ map fst (xml_fields X) @ drop (Suc i) (FIELDS_TO_READ st1),
       ctype_global = ctype_global st1 @ ctypes_of (xml_fields X),
       REFERENCE_FIELDS = dict_update_all (REFERENCE_FIELDS st1) (xml_fields X)\<rparr>"
    have "set rest \<subseteq> set (FIELDS_TO_READ st2)"
    proof
      fix n assume n: "n \<in> set rest"
      then have "n \<in> set (FIELDS_TO_READ st1)" using Cons.prems(2) ftr1 by auto
      moreover have "n \<noteq> fld" using n ni by auto
      moreover have "FIELDS_TO_READ st1 = take i (FIELDS_TO_READ st1) @ fld # drop (Suc i) (FIELDS_TO_READ st1)"
        by (metis id_take_nth_drop i(2) i(3))
      ultimately have "n \<in> set (take i (FIELDS_TO_READ st1)) \<or> n \<in> set (drop (Suc i) (FIELDS_TO_READ st1))"
        by (metis Un_iff set_ConsD set_append)
      then show "n \<in> set (FIELDS_TO_READ st2)" by (auto simp: st2_def)
    qed
    from Cons.IH [OF d this r3 r4] show ?thesis
      by (simp add: f Some X i(1) st1_def [symmetric] st2_def [symmetric] Let_def)
  qed
qed




lemma dict_update_all_Nil [simp]: "dict_update_all d [] = d"
  by (simp add: dict_update_all_def)














subsection \<open>The claims on selection\<close>

text \<open>
  C3. With a decoded requirement dictionary, the selection is the list of the names of
  \<open>char.fields\<close>, in declared order, of the fields other than Flags that have the tag
  \<open>Mandatory\<close> or have all their tags among the values of the dictionary. A field with
  no tag at all satisfies the second condition and is included.
\<close>

theorem select_fields_with_flags:
  "select_fields (Some reqs) fs =
     Inr (map fst (filter (\<lambda>(name, f). name \<noteq> ''Flags'' \<and>
            (''Mandatory'' \<in> set (get_req f) \<or> (\<forall>req\<in>set (get_req f). Tag req \<in> set (map snd reqs)))) fs))"
proof (induction fs)
  case Nil
  show ?case by simp
next
  case (Cons p fs)
  obtain name f where p: "p = (name, f)" by (cases p)
  show ?case
    using Cons.IH by (simp add: p read_field_def list_all_iff)
qed


theorem select_fields_with_flags_witness:
  "select_fields (Some [(''B present'', Tag ''T'')]) (xml_fields flags_A_B) = Inr [''A'', ''B'']
   \<and> select_fields (Some [(''B present'', PyFalse)]) (xml_fields flags_A_B) = Inr [''A'']"
  using select_fields_with_flags [of "[(''B present'', Tag ''T'')]" "xml_fields flags_A_B"]
    select_fields_with_flags [of "[(''B present'', PyFalse)]" "xml_fields flags_A_B"]
  by (simp add: flags_A_B_def get_req_def plain_field_def no_keys_def flags_bit0_def)

theorem untagged_field_is_selected:
  "get_req (plain_field ''uint8'' []) = []
   \<and> decode_flags flags_untagged [0x01, 0x02]
       = Inr (Some \<lparr>ctype_flag = ''B'', FLAGS = [(''B present'', ''present'')],
                     REQS = [(''B present'', Tag ''T'')]\<rparr>)
   \<and> select_fields (Some [(''B present'', Tag ''T'')]) (xml_fields flags_untagged) = Inr [''A'']"
  by code_simp

lemma select_fields_None_raises:
  "\<exists>(name, f) \<in> set fs. name \<noteq> ''Flags'' \<and> get_req f \<noteq> [] \<and> ''Mandatory'' \<notin> set (get_req f)
   \<Longrightarrow> select_fields None fs = Inl AttributeError"
proof (induction fs)
  case Nil then show ?case by simp
next
  case (Cons p fs)
  obtain name f where p: "p = (name, f)" by (cases p)
  show ?case
  proof (cases "name \<noteq> ''Flags'' \<and> get_req f \<noteq> [] \<and> ''Mandatory'' \<notin> set (get_req f)")
    case True
    then show ?thesis by (simp add: p read_field_def)
  next
    case False
    with Cons.prems p have "\<exists>(name, f) \<in> set fs. name \<noteq> ''Flags'' \<and> get_req f \<noteq> [] \<and> ''Mandatory'' \<notin> set (get_req f)"
      by auto
    from Cons.IH [OF this] False show ?thesis
      by (auto simp add: p read_field_def)
  qed
qed

lemma select_fields_None_returns:
  "\<forall>(name, f) \<in> set fs. name \<noteq> ''Flags'' \<longrightarrow> get_req f = [] \<or> ''Mandatory'' \<in> set (get_req f)
   \<Longrightarrow> select_fields None fs = Inr (map fst (filter (\<lambda>(name, f). name \<noteq> ''Flags'') fs))"
proof (induction fs)
  case Nil
  show ?case by simp
next
  case (Cons p fs)
  obtain name f where p: "p = (name, f)" by (cases p)
  from Cons.prems have "\<forall>(name, f) \<in> set fs. name \<noteq> ''Flags'' \<longrightarrow> get_req f = [] \<or> ''Mandatory'' \<in> set (get_req f)"
    by simp
  from Cons.IH [OF this] Cons.prems show ?case
    by (auto simp add: p read_field_def)
qed

lemma decode_flags_None:
  assumes "case map_of (xml_fields char) ''Flags'' of None \<Rightarrow> True | Some fl \<Rightarrow> Ctype fl = None \<or> BitField fl = None"
  shows "decode_flags char val = Inr None"
  using assms by (auto simp: decode_flags_def split: option.splits)


text \<open>
  C10. Where the characteristic has no field Flags, or its Flags has no Ctype or no
  BitField, \<open>_REQS\<close> is \<open>None\<close>: a field other than Flags whose tags are not empty and do
  not contain \<open>Mandatory\<close> makes \<open>_get_multiple_fields\<close> raise \<open>AttributeError\<close>; where
  every such field has no tag or the tag \<open>Mandatory\<close>, all of them are selected; and the
  call returns only in that case.
\<close>

theorem no_flags_requirements:
  assumes "case map_of (xml_fields char) ''Flags'' of
             None \<Rightarrow> True | Some fl \<Rightarrow> Ctype fl = None \<or> BitField fl = None"
  shows "decode_flags char val = Inr None
    \<and> ((\<exists>(name, f) \<in> set (xml_fields char).
           name \<noteq> ''Flags'' \<and> get_req f \<noteq> [] \<and> ''Mandatory'' \<notin> set (get_req f))
         \<longrightarrow> get_multiple_fields g char val rtn_flags = Inl AttributeError)
    \<and> ((\<forall>(name, f) \<in> set (xml_fields char).
           name \<noteq> ''Flags'' \<longrightarrow> get_req f = [] \<or> ''Mandatory'' \<in> set (get_req f))
         \<longrightarrow> select_fields None (xml_fields char)
               = Inr (map fst (filter (\<lambda>(name, f). name \<noteq> ''Flags'') (xml_fields char))))
    \<and> ((\<exists>r. get_multiple_fields g char val rtn_flags = Inr r)
         \<longrightarrow> (\<forall>(name, f) \<in> set (xml_fields char).
           name \<noteq> ''Flags'' \<longrightarrow> get_req f = [] \<or> ''Mandatory'' \<in> set (get_req f)))"
proof -
  have d: "decode_flags char val = Inr None"
    by (rule decode_flags_None [OF assms])
  have a: "get_multiple_fields g char val rtn_flags = Inl AttributeError"
    if "\<exists>(name, f) \<in> set (xml_fields char).
           name \<noteq> ''Flags'' \<and> get_req f \<noteq> [] \<and> ''Mandatory'' \<notin> set (get_req f)"
    using select_fields_None_raises [OF that] by (simp add: get_multiple_fields_def d)
  have c: "\<forall>(name, f) \<in> set (xml_fields char).
           name \<noteq> ''Flags'' \<longrightarrow> get_req f = [] \<or> ''Mandatory'' \<in> set (get_req f)"
    if "\<exists>r. get_multiple_fields g char val rtn_flags = Inr r"
  proof (rule ccontr)
    assume "\<not> ?thesis"
    then have "\<exists>(name, f) \<in> set (xml_fields char).
           name \<noteq> ''Flags'' \<and> get_req f \<noteq> [] \<and> ''Mandatory'' \<notin> set (get_req f)"
      by auto
    from a [OF this] that show False by simp
  qed
  show ?thesis
    using d a c select_fields_None_returns [of "xml_fields char"] by blast
qed

theorem no_flags_requirements_witness:
  "decode_flags tagged_no_flags [0x05, 0x06] = Inr None
   \<and> get_multiple_fields no_xml tagged_no_flags [0x05, 0x06] False = Inl AttributeError
   \<and> select_fields None (xml_fields uint8_uint24) = Inr [''A'', ''B'']"
proof -
  have a: "case map_of (xml_fields tagged_no_flags) ''Flags'' of
             None \<Rightarrow> True | Some fl \<Rightarrow> Ctype fl = None \<or> BitField fl = None"
    by code_simp
  have b: "\<exists>(name, f) \<in> set (xml_fields tagged_no_flags).
             name \<noteq> ''Flags'' \<and> get_req f \<noteq> [] \<and> ''Mandatory'' \<notin> set (get_req f)"
    by code_simp
  have c: "case map_of (xml_fields uint8_uint24) ''Flags'' of
             None \<Rightarrow> True | Some fl \<Rightarrow> Ctype fl = None \<or> BitField fl = None"
    by code_simp
  have d: "\<forall>(name, f) \<in> set (xml_fields uint8_uint24).
             name \<noteq> ''Flags'' \<longrightarrow> get_req f = [] \<or> ''Mandatory'' \<in> set (get_req f)"
    by code_simp
  have e: "map fst (filter (\<lambda>(name, f). name \<noteq> ''Flags'') (xml_fields uint8_uint24)) = [''A'', ''B'']"
    by code_simp
  from no_flags_requirements [OF a, of "[0x05, 0x06]" no_xml False] b
    no_flags_requirements [OF c, of "[]" no_xml False] d e
  show ?thesis by simp
qed

theorem empty_flags_requirements_not_None:
  "decode_flags empty_flags_A_B [0x05] = Inr (Some \<lparr>ctype_flag = ''B'', FLAGS = [], REQS = []\<rparr>)
   \<and> get_req (plain_field ''uint8'' [''C1'']) = [''C1'']
   \<and> get_char_value no_xml [0x05] (ByXml empty_flags_A_B) False
       = Inr (RFields [(''A'', only_value (VInt 5))])"
  by code_simp

subsection \<open>The claims on the branch with flags and on references\<close>

lemma expand_references_unresolved:
  assumes "distinct rest"
    and "set rest \<subseteq> set (FIELDS_TO_READ st)"
    and "\<forall>n\<in>set rest. map_of (xml_fields char) n \<noteq> None"
    and "\<exists>n\<in>set rest. \<exists>f ref. map_of (xml_fields char) n = Some f \<and> Reference f = Some ref \<and> g ref = None"
  shows "expand_references g char rest st = Inl XmlLoadError"
  using assms
proof (induction rest arbitrary: st)
  case Nil
  then show ?case by simp
next
  case (Cons fld rest)
  from Cons.prems(3) obtain f where f: "map_of (xml_fields char) fld = Some f" by auto
  define st1 where "st1 = (case Ctype f of None \<Rightarrow> st | Some ctype \<Rightarrow> st\<lparr>ctype_global := ctype_global st @ ctype\<rparr>)"
  have ftr1: "FIELDS_TO_READ st1 = FIELDS_TO_READ st"
    by (simp add: st1_def split: option.splits)
  have d: "distinct rest" and ni: "fld \<notin> set rest" using Cons.prems(1) by simp_all
  have r3: "\<forall>n\<in>set rest. map_of (xml_fields char) n \<noteq> None" using Cons.prems(3) by simp
  show ?case
  proof (cases "Reference f")
    case None
    with Cons.prems(4) f have r4: "\<exists>n\<in>set rest. \<exists>f ref. map_of (xml_fields char) n = Some f \<and> Reference f = Some ref \<and> g ref = None"
      by auto
    have "set rest \<subseteq> set (FIELDS_TO_READ st1)" using Cons.prems(2) ftr1 by simp
    from Cons.IH [OF d this r3 r4] show ?thesis
      by (simp add: f None st1_def [symmetric] Let_def)
  next
    case (Some ref)
    show ?thesis
    proof (cases "g ref")
      case None
      then show ?thesis by (simp add: f Some Let_def)
    next
      case X: (Some X)
      with Cons.prems(4) f Some have r4: "\<exists>n\<in>set rest. \<exists>f ref. map_of (xml_fields char) n = Some f \<and> Reference f = Some ref \<and> g ref = None"
        by auto
      have "fld \<in> set (FIELDS_TO_READ st1)" using Cons.prems(2) ftr1 by simp
      from index_of_member [OF this] obtain i where i: "index_of fld (FIELDS_TO_READ st1) = Some i"
        "i < length (FIELDS_TO_READ st1)" "FIELDS_TO_READ st1 ! i = fld" by blast
      define st2 where "st2 = \<lparr>FIELDS_TO_READ = take i (FIELDS_TO_READ st1) @ map fst (xml_fields X) @ drop (Suc i) (FIELDS_TO_READ st1),
         ctype_global = ctype_global st1 @ ctypes_of (xml_fields X),
         REFERENCE_FIELDS = dict_update_all (REFERENCE_FIELDS st1) (xml_fields X)\<rparr>"
      have "set rest \<subseteq> set (FIELDS_TO_READ st2)"
      proof
        fix n assume n: "n \<in> set rest"
        then have "n \<in> set (FIELDS_TO_READ st1)" using Cons.prems(2) ftr1 by auto
        moreover have "n \<noteq> fld" using n ni by auto
        moreover have "FIELDS_TO_READ st1 = take i (FIELDS_TO_READ st1) @ fld # drop (Suc i) (FIELDS_TO_READ st1)"
          by (metis id_take_nth_drop i(2) i(3))
        ultimately have "n \<in> set (take i (FIELDS_TO_READ st1)) \<or> n \<in> set (drop (Suc i) (FIELDS_TO_READ st1))"
          by (metis Un_iff set_ConsD set_append)
        then show "n \<in> set (FIELDS_TO_READ st2)" by (auto simp: st2_def)
      qed
      from Cons.IH [OF d this r3 r4] show ?thesis
        by (simp add: f Some X i(1) st1_def [symmetric] st2_def [symmetric] Let_def)
    qed
  qed
qed

lemma autoformat_all_first:
  assumes "\<forall>(n, f)\<in>set pre. Ctype f = None \<or> BitField f = None"
    and "Ctype fl = Some ct" and "BitField fl = Some bits"
    and "autoformat_all raw (pre @ (k, fl) # post) = Inr decoded"
  shows "\<exists>labels more. decoded = (k, labels) # more
           \<and> autoformat_bits raw (total_size_of bits) bits = Inr labels"
  using assms
proof (induction pre arbitrary: decoded)
  case Nil
  then show ?case
    by (auto simp: autoformat_field_def on_success_Inr_iff)
next
  case (Cons p pre)
  obtain n f where p: "p = (n, f)" by (cases p)
  from Cons.prems(1) have nb: "Ctype f = None \<or> BitField f = None" by (simp add: p)
  then have af: "autoformat_field raw f = Inr None"
    by (auto simp: autoformat_field_def split: option.splits)
  from Cons.prems(4) have "autoformat_all raw (pre @ (k, fl) # post) = Inr decoded"
    by (auto simp: p af on_success_Inr_iff)
  moreover from Cons.prems(1) have "\<forall>(n, f)\<in>set pre. Ctype f = None \<or> BitField f = None" by simp
  ultimately show ?case using Cons.IH Cons.prems(2,3) by blast
qed

lemma first_value_Cons: "first_value ((k, v) # d) = Inr v"
  by (simp add: first_value_def)

lemma flags_first_labels:
  assumes df: "decode_flags char val = Inr (Some fs)"
    and pre: "\<forall>(n, f)\<in>set (takeWhile (\<lambda>p. fst p \<noteq> ''Flags'') (xml_fields char)).
                Ctype f = None \<or> BitField f = None"
  shows "\<exists>fl bits raw. map_of (xml_fields char) ''Flags'' = Some fl \<and> BitField fl = Some bits
            \<and> autoformat_bits raw (total_size_of bits) bits = Inr (FLAGS fs)"
proof -
  let ?P = "\<lambda>p::string \<times> field. fst p \<noteq> ''Flags''"
  from df obtain fl ct bits n raw decoded flags where fl: "map_of (xml_fields char) ''Flags'' = Some fl"
    and ct: "Ctype fl = Some ct" and bits: "BitField fl = Some bits"
    and dec: "autoformat_all raw (xml_fields char) = Inr decoded"
    and fv: "first_value decoded = Inr flags" and F: "FLAGS fs = flags"
    by (auto simp: decode_flags_def autoformat_def on_success_Inr_iff split: option.splits)
  from fl have "''Flags'' \<in> fst ` set (xml_fields char)"
    by (metis map_of_eq_None_iff option.distinct(1))
  then have "dropWhile ?P (xml_fields char) \<noteq> []"
    by (force simp: dropWhile_eq_Nil_conv)
  then obtain q post where dw: "dropWhile ?P (xml_fields char) = q # post"
    by (cases "dropWhile ?P (xml_fields char)") auto
  have "\<not> ?P q" using hd_dropWhile [of ?P "xml_fields char"] dw by auto
  then obtain fl' where q: "q = (''Flags'', fl')" by (cases q) auto
  have split: "xml_fields char = takeWhile ?P (xml_fields char) @ (''Flags'', fl') # post"
    using takeWhile_dropWhile_id [of ?P "xml_fields char"] dw q by simp
  have "''Flags'' \<notin> fst ` set (takeWhile ?P (xml_fields char))"
    by (auto dest: set_takeWhileD)
  then have "map_of (takeWhile ?P (xml_fields char)) ''Flags'' = None"
    by (simp add: map_of_eq_None_iff)
  then have "map_of (takeWhile ?P (xml_fields char) @ (''Flags'', fl') # post) ''Flags'' = Some fl'"
    by (simp add: map_add_def)
  with split fl have "fl' = fl" by simp
  with split have split': "xml_fields char = takeWhile ?P (xml_fields char) @ (''Flags'', fl) # post"
    by simp
  from autoformat_all_first [OF pre ct bits, of raw "''Flags''" post decoded] dec split'
  obtain labels more where "decoded = (''Flags'', labels) # more"
    "autoformat_bits raw (total_size_of bits) bits = Inr labels" by auto
  with fv F fl bits show ?thesis by (auto simp: first_value_Cons)
qed

text \<open>
  C2. Take a characteristic of several fields for which the leading bytes decode and
  \<open>_FLAGS\<close> is a dictionary that is not empty, and whose selection is not empty. \<open>_FLAGS\<close> is
  the label dictionary of the first field, in declared order, that has a Ctype and a
  BitField; where no such field precedes Flags it is the label dictionary of Flags
  itself. Then \<open>get_char_value\<close> never returns: where every \<open>Reference\<close> of a selected
  field can be loaded it raises the \<open>TypeError\<close> of the call \<open>_complete_bytes(val)\<close>, and
  where one cannot be loaded the reference loop raises the loading error.
\<close>

theorem flags_branch_never_returns:
  assumes "distinct (map fst (xml_fields char))"
    and "length (xml_fields char) \<noteq> 1"
    and "decode_flags char val = Inr (Some fs)"
    and "FLAGS fs \<noteq> []"
    and "select_fields (Some (REQS fs)) (xml_fields char) = Inr selected"
    and "selected \<noteq> []"
  shows "(\<exists>e. get_char_value g val (ByXml char) rtn_flags = Inl e)
    \<and> ((\<forall>name\<in>set selected. \<forall>f ref. map_of (xml_fields char) name = Some f \<longrightarrow>
            Reference f = Some ref \<longrightarrow> g ref \<noteq> None)
        \<longrightarrow> get_char_value g val (ByXml char) rtn_flags = Inl TypeError)
    \<and> ((\<exists>name\<in>set selected. \<exists>f ref. map_of (xml_fields char) name = Some f \<and>
            Reference f = Some ref \<and> g ref = None)
        \<longrightarrow> get_char_value g val (ByXml char) rtn_flags = Inl XmlLoadError)
    \<and> ((\<forall>(n, f)\<in>set (takeWhile (\<lambda>p. fst p \<noteq> ''Flags'') (xml_fields char)).
            Ctype f = None \<or> BitField f = None)
        \<longrightarrow> (\<exists>fl bits raw. map_of (xml_fields char) ''Flags'' = Some fl \<and> BitField fl = Some bits
              \<and> autoformat_bits raw (total_size_of bits) bits = Inr (FLAGS fs)))"
proof -
  define init where "init = \<lparr>FIELDS_TO_READ = selected, ctype_global = ctype_flag fs, REFERENCE_FIELDS = []\<rparr>"
  have call: "call_complete_bytes [val] = Inl TypeError"
    by (simp add: call_complete_bytes_def)
  have eq: "get_char_value g val (ByXml char) rtn_flags =
      (case expand_references g char selected init of Inl e \<Rightarrow> Inl e | Inr st \<Rightarrow> Inl TypeError)"
    using assms(2,3,4,5,6)
    by (simp add: get_char_value_def get_multiple_fields_def read_selected_def call init_def
        split: sum.splits)
  have first: "\<exists>e. get_char_value g val (ByXml char) rtn_flags = Inl e"
    by (simp add: eq split: sum.splits)
  have d: "distinct selected"
    using select_fields_names(2) [OF assms(5) assms(1)] .
  have "set selected \<subseteq> fst ` set (xml_fields char)"
    using select_fields_names(1) [OF assms(5)] .
  then have m: "\<forall>n\<in>set selected. map_of (xml_fields char) n \<noteq> None"
    by (metis map_of_eq_None_iff subsetD)
  have sub: "set selected \<subseteq> set (FIELDS_TO_READ init)" by (simp add: init_def)
  have second: "get_char_value g val (ByXml char) rtn_flags = Inl TypeError"
    if res: "\<forall>name\<in>set selected. \<forall>f ref. map_of (xml_fields char) name = Some f \<longrightarrow>
            Reference f = Some ref \<longrightarrow> g ref \<noteq> None"
  proof -
    from expand_references_returns [OF d sub m res] obtain st' where
      "expand_references g char selected init = Inr st'" by blast
    then show ?thesis by (simp add: eq)
  qed
  have third: "get_char_value g val (ByXml char) rtn_flags = Inl XmlLoadError"
    if unres: "\<exists>name\<in>set selected. \<exists>f ref. map_of (xml_fields char) name = Some f \<and>
            Reference f = Some ref \<and> g ref = None"
    using expand_references_unresolved [OF d sub m unres] by (simp add: eq)
  from first second third flags_first_labels [OF assms(3)] show ?thesis by blast
qed

theorem flags_branch_never_returns_witness:
  "get_char_value date_xml [0x01] (ByXml flags_reference) False = Inl TypeError
   \<and> get_char_value no_xml [0x01] (ByXml flags_reference) True = Inl XmlLoadError
   \<and> (\<exists>fl bits raw. map_of (xml_fields flags_reference) ''Flags'' = Some fl \<and> BitField fl = Some bits
         \<and> autoformat_bits raw (total_size_of bits) bits = Inr [(''B present'', ''present'')])"
proof -
  have a: "distinct (map fst (xml_fields flags_reference))" "length (xml_fields flags_reference) \<noteq> 1"
    by code_simp+
  have b: "decode_flags flags_reference [0x01]
      = Inr (Some \<lparr>ctype_flag = ''B'', FLAGS = [(''B present'', ''present'')],
                    REQS = [(''B present'', Tag ''T'')]\<rparr>)"
    by code_simp
  have c: "select_fields (Some (REQS \<lparr>ctype_flag = ''B'', FLAGS = [(''B present'', ''present'')],
                    REQS = [(''B present'', Tag ''T'')]\<rparr>)) (xml_fields flags_reference) = Inr [''R'']"
    by code_simp
  have d: "\<forall>name\<in>set [''R'']. \<forall>f ref. map_of (xml_fields flags_reference) name = Some f \<longrightarrow>
            Reference f = Some ref \<longrightarrow> date_xml ref \<noteq> None"
    by (simp add: flags_reference_def no_keys_def date_xml_def)
  have e: "\<exists>name\<in>set [''R'']. \<exists>f ref. map_of (xml_fields flags_reference) name = Some f \<and>
            Reference f = Some ref \<and> no_xml ref = None"
    by (simp add: flags_reference_def no_keys_def no_xml_def)
  have f: "\<forall>(n, f)\<in>set (takeWhile (\<lambda>p. fst p \<noteq> ''Flags'') (xml_fields flags_reference)).
            Ctype f = None \<or> BitField f = None"
    by (simp add: flags_reference_def)
  from flags_branch_never_returns [OF a b _ c, of date_xml False] d f
    flags_branch_never_returns [OF a b _ c, of no_xml True] e
  show ?thesis by simp
qed

text \<open>
  With a field S before Flags whose BitField has no Bit, the labels of Flags are not
  empty but \<open>_FLAGS\<close> is the empty dictionary of S: the other branch is taken and the
  blob \<open>01 02\<close> is decoded. With a \<open>Reference\<close> that cannot be loaded, the exception is the
  loading error and no \<open>TypeError\<close>.
\<close>

theorem flags_branch_returns_or_raises_loading_error:
  "length (xml_fields S_before_flags) = 3
   \<and> autoformat_field (VInt 1) flags_bit0 = Inr (Some [(''B present'', ''present'')])
   \<and> select_fields (Some []) (xml_fields S_before_flags) = Inr [''S'', ''A'']
   \<and> get_char_value no_xml [0x01, 0x02] (ByXml S_before_flags) False
       = Inr (RFields
           [(''S'', \<lparr>out_Quantity = None, out_Unit = None, out_Symbol = None, Value = Some (VInt 1)\<rparr>),
            (''A'', \<lparr>out_Quantity = None, out_Unit = None, out_Symbol = None, Value = Some (VInt 2)\<rparr>)])
   \<and> length (xml_fields flags_reference) = 2
   \<and> decode_flags flags_reference [0x01]
       = Inr (Some \<lparr>ctype_flag = ''B'', FLAGS = [(''B present'', ''present'')],
                     REQS = [(''B present'', Tag ''T'')]\<rparr>)
   \<and> select_fields (Some [(''B present'', Tag ''T'')]) (xml_fields flags_reference) = Inr [''R'']
   \<and> get_char_value no_xml [0x01] (ByXml flags_reference) False = Inl XmlLoadError"
  by code_simp




end
